theory Spec2Isabelle
  imports Main "HOL-Library.Sublist" "HOL-Library.Word"
begin

text \<open>
  A model of the order pipeline of the service: the file store (ValidatePDF,
  SaveTempFile), the template functions (FillTemplate, renderTemplate, EscapeMarkdownV2),
  the two delivery channels (SendOrderEmail, SendTelegramNotification), the order handler
  HandleProjectOrder with its audit row, and the rate-limit middleware. Every Go
  function is a HOL function of the same name; a loop is a recursive function named after
  the function it belongs to; an error return is a value of the type \<open>error\<close>.
\<close>

section \<open>Data model\<close>

text \<open>
  Go strings and byte slices are sequences of bytes; an Isabelle \<open>char\<close> is one byte, so
  both are modelled as \<open>string\<close>. The conversion \<open>[]byte(s)\<close> is the identity on the
  bytes, and \<open>len\<close> is \<open>length\<close>.
\<close>

type_synonym bytes = string

subsection \<open>utils.go: Contains\<close>

fun Contains :: "string list \<Rightarrow> string \<Rightarrow> bool" where
  "Contains [] item = False"
| "Contains (s # rest) item = (if s = item then True else Contains rest item)"

subsection \<open>handlers: language negotiation of HandleProjectOrder\<close>

text \<open>
  The three steps of the handler: the language of the body, else the Accept-Language
  header, else "en"; then the check against the supported languages of the service.
\<close>

definition requestedLang :: "string \<Rightarrow> string \<Rightarrow> string" where
  "requestedLang bodyLang acceptLanguage =
     (let lang = bodyLang;
          lang = (if lang = [] then acceptLanguage else lang);
          lang = (if lang = [] then ''en'' else lang)
      in lang)"

definition supportedOrFirst :: "string list \<Rightarrow> string \<Rightarrow> string" where
  "supportedOrFirst supportedLangs lang =
     (if \<not> Contains supportedLangs lang
      then (case supportedLangs of l # _ \<Rightarrow> l | [] \<Rightarrow> ''en'')
      else lang)"

definition negotiateLanguage :: "string list \<Rightarrow> string \<Rightarrow> string \<Rightarrow> string" where
  "negotiateLanguage supportedLangs bodyLang acceptLanguage =
     supportedOrFirst supportedLangs (requestedLang bodyLang acceptLanguage)"

subsection \<open>Strings: strings.ReplaceAll, fmt.Sprintf("%v")\<close>

text \<open>
  \<open>strings.ReplaceAll\<close> replaces the non-overlapping occurrences of \<open>old\<close> from left to
  right. For an empty \<open>old\<close> Go inserts \<open>new\<close> before every UTF-8 sequence and at the end;
  the model does so before every byte, which is the same on ASCII text. No caller in this
  program passes an empty \<open>old\<close>.
\<close>

function ReplaceAll :: "string \<Rightarrow> string \<Rightarrow> string \<Rightarrow> string" where
  "ReplaceAll [] old new = (if old = [] then new else [])"
| "ReplaceAll (c # cs) old new =
     (if old = [] then new @ c # ReplaceAll cs old new
      else if prefix old (c # cs) then new @ ReplaceAll (drop (length old) (c # cs)) old new
      else c # ReplaceAll cs old new)"
  by pat_completeness auto
termination
  by (relation "measure (\<lambda>(s, old, new). length s)") auto

text \<open>
  The values of a template map are \<open>interface{}\<close>: strings in the handler, and an integer
  in its older variant.
\<close>

datatype "value" = VString string | VInt int

definition digit :: "nat \<Rightarrow> char" where
  "digit d = ''0123456789'' ! d"

function natDecimal :: "nat \<Rightarrow> string" where
  "natDecimal n = (if n < 10 then [digit n] else natDecimal (n div 10) @ [digit (n mod 10)])"
  by pat_completeness auto
termination
  by (relation "measure id") auto

definition intDecimal :: "int \<Rightarrow> string" where
  "intDecimal i = (if i < 0 then CHR ''-'' # natDecimal (nat (- i)) else natDecimal (nat i))"

fun Sprintf_v :: "value \<Rightarrow> string" where
  "Sprintf_v (VString s) = s"
| "Sprintf_v (VInt i) = intDecimal i"

subsection \<open>utils.go: FillTemplate\<close>

text \<open>
  A Go map is visited by \<open>range\<close> in an order the runtime chooses. The data of a template
  is therefore an association list with distinct keys, in the order of the visit; a
  statement for every such list holds for every order.
\<close>

fun FillTemplate :: "string \<Rightarrow> (string \<times> value) list \<Rightarrow> string" where
  "FillTemplate result [] = result"
| "FillTemplate result ((key, val) # data) =
     (let placeholder = ''{'' @ key @ ''}'';
          strValue = (case val of VString s \<Rightarrow> s | _ \<Rightarrow> Sprintf_v val)
      in FillTemplate (ReplaceAll result placeholder strValue) data)"

text \<open>
  The reading of the specification: a template is a sequence of literal text and
  \<open>{key}\<close> tokens; every token with a bound key becomes the string form of its value,
  every other token stays as it is.
\<close>

datatype part = Lit string | Tok string

fun flatPart :: "part \<Rightarrow> string" where
  "flatPart (Lit s) = s"
| "flatPart (Tok k) = ''{'' @ k @ ''}''"

definition flat :: "part list \<Rightarrow> string" where
  "flat ps = concat (map flatPart ps)"

fun substPart :: "(string \<rightharpoonup> value) \<Rightarrow> part \<Rightarrow> string" where
  "substPart m (Lit s) = s"
| "substPart m (Tok k) = (case m k of Some v \<Rightarrow> Sprintf_v v | None \<Rightarrow> ''{'' @ k @ ''}'')"

definition substTokens :: "(string \<rightharpoonup> value) \<Rightarrow> part list \<Rightarrow> string" where
  "substTokens m ps = concat (map (substPart m) ps)"

text \<open>Literal text holds no opening brace, a key of a token no brace at all.\<close>

fun wfPart :: "part \<Rightarrow> bool" where
  "wfPart (Lit s) = (CHR ''{'' \<notin> set s)"
| "wfPart (Tok k) = (CHR ''{'' \<notin> set k \<and> CHR ''}'' \<notin> set k)"

fun replacePart :: "string \<Rightarrow> string \<Rightarrow> part \<Rightarrow> part" where
  "replacePart k v (Lit s) = Lit s"
| "replacePart k v (Tok k') = (if k' = k then Lit v else Tok k')"

subsection \<open>telegram.go: renderTemplate, EscapeMarkdownV2\<close>

fun renderTemplate :: "string \<Rightarrow> (string \<times> value) list \<Rightarrow> string" where
  "renderTemplate result [] = result"
| "renderTemplate result ((key, val) # data) =
     (let placeholder = ''{'' @ key @ ''}'';
          strValue = Sprintf_v val
      in renderTemplate (ReplaceAll result placeholder strValue) data)"

definition backslash :: char where
  "backslash = CHR 0x5C"

definition specials :: "string list" where
  "specials = [''_'', ''*'', ''['', '']'', ''('', '')'', ''~'', [CHR 0x60], ''>'', ''#'',
               ''+'', ''-'', ''='', ''|'', ''{'', ''}'', ''.'', ''!'']"

text \<open>The loop of EscapeMarkdownV2 over \<open>specials\<close>.\<close>

fun escapeLoop :: "string list \<Rightarrow> string \<Rightarrow> string" where
  "escapeLoop [] text = text"
| "escapeLoop (s # ss) text = escapeLoop ss (ReplaceAll text s (backslash # s))"

definition EscapeMarkdownV2 :: "string \<Rightarrow> string" where
  "EscapeMarkdownV2 text = escapeLoop specials text"

text \<open>The transform of the specification: a backslash before every reserved character.\<close>

definition escChar :: "char \<Rightarrow> string" where
  "escChar c = (if [c] \<in> set specials then [backslash, c] else [c])"


subsection \<open>config.go: the configuration of a service\<close>

record SMTPConfig =
  User :: string
  Password :: string
  Host :: string
  Port :: string
  From :: string
  Admin :: string

record TelegramConfig =
  BotToken :: string
  ChatID :: string

record EmailTemplate =
  Subject :: string
  Body :: string

record ServiceConfig =
  Name :: string
  SMTP :: SMTPConfig
  Telegram :: TelegramConfig
  EmailTemplates :: "string \<rightharpoonup> EmailTemplate"
  TelegramTemplates :: "string \<rightharpoonup> string"
  TelegramTemplatePaths :: "string \<rightharpoonup> string"
  EmailTemplateSubjectPaths :: "string \<rightharpoonup> string"
  EmailTemplateBodyPaths :: "string \<rightharpoonup> string"
  SupportedLangs :: "string list"

definition Configured :: "TelegramConfig \<Rightarrow> bool" where
  "Configured tc = (BotToken tc \<noteq> [] \<and> ChatID tc \<noteq> [])"

text \<open>Reading a Go map of strings at a key it does not hold gives the empty string.\<close>

definition index :: "(string \<rightharpoonup> string) \<Rightarrow> string \<Rightarrow> string" where
  "index m k = (case m k of Some v \<Rightarrow> v | None \<Rightarrow> [])"

subsection \<open>Errors\<close>

text \<open>
  The sentinel errors of the packages, the errors of the libraries, and the two ways the
  code builds an error from another: \<open>Wrapped\<close> for \<open>fmt.Errorf\<close> with \<open>%w\<close>, which
  \<open>errors.Is\<close> sees through, and \<open>Formatted\<close> for \<open>%v\<close>, which keeps only the text.
\<close>

datatype error =
    ErrInvalidPDF
  | ErrFileTooLarge
  | ErrInvalidFileType
  | ErrTelegramNotConfigured
  | ErrInvalidTemplate
  | ErrMessageTooLong
  | ErrAPIRequestFailed
  | ErrOS string
  | ErrAddress
  | ErrSMTP
  | ErrIO
  | ErrJSON
  | ErrUnexpectedStatus nat string
  | ErrTelegramAPI string int
  | ErrNoAttachments
  | ErrDB
  | Wrapped string error
  | Formatted string error

fun errorsIs :: "error \<Rightarrow> error \<Rightarrow> bool" where
  "errorsIs (Wrapped m e) target = (Wrapped m e = target \<or> errorsIs e target)"
| "errorsIs e target = (e = target)"

subsection \<open>The libraries and the outside world\<close>

text \<open>
  The field \<open>Name\<close> of FileInfo and of EmailAttachment is written \<open>FileName\<close> and
  \<open>AttachmentName\<close>, since \<open>Name\<close> is the field of ServiceConfig. \<open>Size\<close> is an
  \<open>int64\<close>, read as a signed 64-bit word.
\<close>

record FileInfo =
  UUID :: string
  Path :: string
  FileName :: string
  Size :: "64 word"
  Sha256 :: string
  MimeType :: string
  CreatedAt :: int
  ExpiresAt :: int

record EmailAttachment =
  AttachmentName :: string
  Content :: bytes

text \<open>
  What SendOrderEmail hands to \<open>smtp.SendMail\<close>. The MIME serialisation (headers,
  boundary, base64 lines of 76 characters) is not modelled: the record holds the fields
  the message is built from.
\<close>

record mail =
  mailAddr :: string
  mailFrom :: string
  mailRecipients :: "string list"
  mailBcc :: "string option"
  mailSubject :: string
  mailBody :: string
  mailAttachments :: "EmailAttachment list"

record TelegramResponse =
  OK :: bool
  Description :: string
  ErrorCode :: int

text \<open>The JSON payload of sendTelegramRequest and the bot token of its URL.\<close>

record telegramRequest =
  token :: string
  chat_id :: string
  text_field :: string
  parse_mode :: string
  disable_web_page_preview :: bool

datatype httpResult = PostError | ReadError | Response nat string

record orderRow =
  service_name :: string
  full_name :: string
  company_name :: string
  contact_info :: string
  project_link :: string
  payment_method :: string
  start_date :: string
  language :: string
  ip_address :: string
  user_agent :: string
  created_at :: int

text \<open>
  The functions of libraries outside the repository, and the answers of the operating
  system, the mail server, the bot API and the database, are parameters of the model.
  A failing \<open>os.MkdirAll\<close> creates no file. \<open>os.WriteFile\<close> opens the file (creating or
  truncating it), writes and closes: it can fail at the opening, with the files as they
  were, or later, with the file created and the bytes written so far in it.
  \<open>rangeOrder\<close> is the order in which the runtime visits the keys of a map, which may
  differ from one loop to the next (the first argument counts the loops).
\<close>

datatype writeResult = Written | OpenFailed | WriteFailed nat

record env =
  IsMIME :: "bytes \<Rightarrow> string \<Rightarrow> bool"
  DetectContentType :: "bytes \<Rightarrow> string"
  Sum256 :: "bytes \<Rightarrow> bytes"
  uuidNew :: "nat \<Rightarrow> string"
  filepathJoin :: "string list \<Rightarrow> string"
  filepathBase :: "string \<Rightarrow> string"
  ToLower :: "string \<Rightarrow> string"
  TrimSpace :: "string \<Rightarrow> string"
  SplitHostPort :: "string \<Rightarrow> string"
  rangeOrder :: "nat \<Rightarrow> string list \<Rightarrow> string list"
  MkdirAllFails :: "string \<Rightarrow> bool"
  WriteFile :: "string \<Rightarrow> bytes \<Rightarrow> writeResult"
  ParseAddressFails :: "string \<Rightarrow> bool"
  SendMailFails :: "mail \<Rightarrow> bool"
  httpPost :: "telegramRequest \<Rightarrow> httpResult"
  Unmarshal :: "string \<Rightarrow> TelegramResponse option"
  ExecFails :: "orderRow \<Rightarrow> bool"

text \<open>
  The calls the order handler makes to the two channels and to the audit log, in the
  order it makes them: a record of what was attempted, whatever came of it.
\<close>

datatype call =
    SendOrderEmailCall ServiceConfig string string string "EmailAttachment list"
  | SendTelegramNotificationCall ServiceConfig string "(string \<times> value) list"
  | logOrderToDBCall orderRow

text \<open>
  The state the program works on: the files on disk, the identifiers drawn so far, the
  clock, the armed deletions (the goroutines of scheduleFileDeletion, which the
  sequential model never runs), the messages handed to the mail server and to the bot
  API, and the table of orders: its columns as the migrations created them (the name of
  each column other than the key, and whether it is NOT NULL) and its rows.
\<close>

record world =
  files :: "string \<rightharpoonup> bytes"
  uuidCount :: nat
  rangeCount :: nat
  now :: int
  scheduled :: "(string \<times> int) list"
  smtpLog :: "mail list"
  telegramLog :: "telegramRequest list"
  orderColumns :: "(string \<times> bool) list"
  project_orders :: "orderRow list"
  calls :: "call list"

text \<open>
  The table \<open>project_orders\<close> as \<open>migrations/2025070401_init.sql\<close> creates it: every
  column but the autoincrement key \<open>id\<close>, with \<open>True\<close> for NOT NULL.
\<close>

definition init_project_orders :: "(string \<times> bool) list" where
  "init_project_orders =
     [(''service_name'', True), (''full_name'', True), (''company_name'', False),
      (''contact_info'', True), (''project_link'', False), (''payment_method'', True),
      (''start_date'', True), (''languages'', True), (''ip_address'', True),
      (''user_agent'', True), (''created_at'', True)]"

text \<open>
  An INSERT that names the columns \<open>cols\<close> is accepted by a table when the table has
  every one of them and the statement gives a value to every NOT NULL column.
\<close>

definition insertable :: "(string \<times> bool) list \<Rightarrow> string list \<Rightarrow> bool" where
  "insertable table cols =
     (set cols \<subseteq> set (map fst table) \<and> set (map fst (filter snd table)) \<subseteq> set cols)"

definition rangeMap :: "env \<Rightarrow> world \<Rightarrow> (string \<times> 'a) list \<Rightarrow> (string \<times> 'a) list \<times> world" where
  "rangeMap e w m =
     (List.map_filter (\<lambda>k. map_option (Pair k) (map_of m k)) (rangeOrder e (rangeCount w) (map fst m)),
      w\<lparr>rangeCount := Suc (rangeCount w)\<rparr>)"

text \<open>\<open>m[key] = val\<close> on a map held as an association list.\<close>

fun assign :: "(string \<times> 'a) list \<Rightarrow> string \<Rightarrow> 'a \<Rightarrow> (string \<times> 'a) list" where
  "assign [] key val = [(key, val)]"
| "assign ((k, v) # m) key val = (if k = key then (k, val) # m else (k, v) # assign m key val)"

definition Remove :: "world \<Rightarrow> string \<Rightarrow> world" where
  "Remove w path = w\<lparr>files := (files w)(path := None)\<rparr>"

subsection \<open>File store: ValidatePDF and SaveTempFile\<close>

definition PDFMagicNumber :: string where
  "PDFMagicNumber = ''%PDF-''"

definition ValidatePDF :: "env \<Rightarrow> bytes \<Rightarrow> bool" where
  "ValidatePDF e data =
     (if length data < length PDFMagicNumber then False
      else prefix PDFMagicNumber data \<and> IsMIME e data ''application/pdf'')"

definition MaxFileSize :: nat where
  "MaxFileSize = 10 * 2 ^ 20"

definition CleanupInterval :: int where
  "CleanupInterval = 24 * 3600 * 1000000000"

definition hextable :: string where
  "hextable = ''0123456789abcdef''"

definition EncodeToString :: "bytes \<Rightarrow> string" where
  "EncodeToString src =
     concat (map (\<lambda>v. [hextable ! (of_char v div 16), hextable ! (of_char v mod 16)]) src)"

definition SaveTempFile :: "env \<Rightarrow> world \<Rightarrow> bytes \<Rightarrow> string \<Rightarrow> (error + FileInfo) \<times> world" where
  "SaveTempFile e w data pre =
     (if length data > MaxFileSize then (Inl ErrFileTooLarge, w)
      else
        let storagePath = filepathJoin e [''app'', ''storage'', ''temp''] in
        if MkdirAllFails e storagePath
        then (Inl (Wrapped ''failed to create storage directory'' (ErrOS storagePath)), w)
        else
          let fileID = uuidNew e (uuidCount w);
              w = w\<lparr>uuidCount := Suc (uuidCount w)\<rparr>;
              fileName = pre @ ''_'' @ fileID @ ''.pdf'';
              filePath = filepathJoin e [storagePath, fileName] in
          case WriteFile e filePath data of
            OpenFailed \<Rightarrow> (Inl (Wrapped ''failed to write file'' (ErrOS filePath)), w)
          | WriteFailed n \<Rightarrow>
              (Inl (Wrapped ''failed to write file'' (ErrOS filePath)),
               w\<lparr>files := (files w)(filePath \<mapsto> take n data)\<rparr>)
          | Written \<Rightarrow>
            let w = w\<lparr>files := (files w)(filePath \<mapsto> data)\<rparr>;
                hashStr = EncodeToString (Sum256 e data);
                mimeType = DetectContentType e data in
            if \<not> prefix ''application/pdf'' mimeType
            then (Inl ErrInvalidFileType, Remove w filePath)
            else
              let fileInfo = \<lparr>UUID = fileID, Path = filePath, FileName = fileName,
                              Size = of_nat (length data), Sha256 = hashStr,
                              MimeType = mimeType, CreatedAt = now w,
                              ExpiresAt = now w + CleanupInterval\<rparr>;
                  w = w\<lparr>scheduled := scheduled w @ [(Path fileInfo, CleanupInterval)]\<rparr>
              in (Inr fileInfo, w))"


subsection \<open>A sample environment\<close>

text \<open>
  One instance of the parameters, for evaluating the model on concrete inputs: the PDF
  entries of the two sniffers, a constant digest, paths joined with a slash, map keys
  visited in the order they were written, and every outside call succeeding. The world
  it starts from has no files and the order table of the migration, without rows.
\<close>

definition sampleEnv :: env where
  "sampleEnv =
     \<lparr>IsMIME = (\<lambda>buf mime. mime = ''application/pdf'' \<and> prefix ''%PDF'' buf),
      DetectContentType =
        (\<lambda>buf. if prefix ''%PDF-'' buf then ''application/pdf'' else ''application/octet-stream''),
      Sum256 = (\<lambda>buf. [CHR 0x01, CHR 0xAB]),
      uuidNew = (\<lambda>n. ''id'' @ natDecimal n),
      filepathJoin = (\<lambda>elems. case elems of [] \<Rightarrow> [] | x # xs \<Rightarrow> foldl (\<lambda>a b. a @ ''/'' @ b) x xs),
      filepathBase = (\<lambda>path. rev (takeWhile (\<lambda>c. c \<noteq> CHR ''/'') (rev path))),
      ToLower = (\<lambda>s. s),
      TrimSpace = (\<lambda>s. s),
      SplitHostPort = (\<lambda>s. takeWhile (\<lambda>c. c \<noteq> CHR '':'') s),
      rangeOrder = (\<lambda>n ks. ks),
      MkdirAllFails = (\<lambda>path. False),
      WriteFile = (\<lambda>path buf. Written),
      ParseAddressFails = (\<lambda>addr. CHR ''@'' \<notin> set addr),
      SendMailFails = (\<lambda>m. False),
      httpPost = (\<lambda>req. Response 200 ''ok''),
      Unmarshal = (\<lambda>body. Some \<lparr>OK = True, Description = [], ErrorCode = 0\<rparr>),
      ExecFails = (\<lambda>row. False)\<rparr>"

definition emptyWorld :: world where
  "emptyWorld =
     \<lparr>files = Map.empty, uuidCount = 0, rangeCount = 0, now = 0, scheduled = [],
      smtpLog = [], telegramLog = [], orderColumns = init_project_orders,
      project_orders = [], calls = []\<rparr>"

text \<open>The path under which SaveTempFile stores the next file with the prefix \<open>pre\<close>.\<close>

definition tempPath :: "env \<Rightarrow> world \<Rightarrow> string \<Rightarrow> string" where
  "tempPath e w pre =
     filepathJoin e [filepathJoin e [''app'', ''storage'', ''temp''],
                     pre @ ''_'' @ uuidNew e (uuidCount w) @ ''.pdf'']"

subsection \<open>telegram.go: the chat channel\<close>

definition maxMessageLength :: nat where
  "maxMessageLength = 4096"

text \<open>\<open>os.ReadFile\<close> fails exactly when the store holds no file at the path.\<close>

definition getLocalizedTemplate :: "world \<Rightarrow> ServiceConfig \<Rightarrow> string \<Rightarrow> error + string" where
  "getLocalizedTemplate w service lang =
     (case (if TelegramTemplates service lang = None
            then (case SupportedLangs service of
                    [] \<Rightarrow> Inl ErrInvalidTemplate
                  | first # _ \<Rightarrow> Inr first)
            else Inr lang) of
        Inl err \<Rightarrow> Inl err
      | Inr lang \<Rightarrow>
          if TelegramTemplatePaths service lang \<noteq> None \<and> index (TelegramTemplatePaths service) lang \<noteq> []
          then (let path = index (TelegramTemplatePaths service) lang in
                case files w path of
                  None \<Rightarrow> Inl (Wrapped (''failed to load Telegram template from '' @ path) (ErrOS path))
                | Some content \<Rightarrow> Inr content)
          else (case TelegramTemplates service lang of
                  None \<Rightarrow> Inl ErrInvalidTemplate
                | Some template \<Rightarrow> if template = [] then Inl ErrInvalidTemplate else Inr template))"

definition sendTelegramRequest ::
  "env \<Rightarrow> world \<Rightarrow> string \<Rightarrow> string \<Rightarrow> string \<Rightarrow> (error + TelegramResponse) \<times> world" where
  "sendTelegramRequest e w botToken chatID message =
     (let payload = \<lparr>token = botToken, chat_id = chatID, text_field = message,
                     parse_mode = ''MarkdownV2'', disable_web_page_preview = True\<rparr>;
          w = w\<lparr>telegramLog := telegramLog w @ [payload]\<rparr>
      in case httpPost e payload of
           PostError \<Rightarrow> (Inl (Wrapped ''request failed'' ErrAPIRequestFailed), w)
         | ReadError \<Rightarrow> (Inl (Wrapped ''response read failed'' ErrIO), w)
         | Response statusCode body \<Rightarrow>
             if statusCode \<noteq> 200 then (Inl (ErrUnexpectedStatus statusCode body), w)
             else (case Unmarshal e body of
                     None \<Rightarrow> (Inl (Wrapped ''response parse failed'' ErrJSON), w)
                   | Some response \<Rightarrow> (Inr response, w)))"

definition SendTelegramNotification ::
  "env \<Rightarrow> world \<Rightarrow> ServiceConfig \<Rightarrow> string \<Rightarrow> (string \<times> value) list \<Rightarrow> error option \<times> world" where
  "SendTelegramNotification e w service lang data =
     (if \<not> Configured (Telegram service) then (Some ErrTelegramNotConfigured, w)
      else case getLocalizedTemplate w service lang of
        Inl err \<Rightarrow> (Some (Wrapped ''template error'' err), w)
      | Inr template \<Rightarrow>
          let (entries, w) = rangeMap e w data;
              message = renderTemplate template entries;
              message = EscapeMarkdownV2 message in
          if length message > maxMessageLength
          then (Some (Wrapped (intDecimal (int (length message)) @ '' > '' @ intDecimal (int maxMessageLength))
                        ErrMessageTooLong), w)
          else case sendTelegramRequest e w (BotToken (Telegram service)) (ChatID (Telegram service)) message of
              (Inl err, w) \<Rightarrow> (Some (Wrapped ''send failed'' err), w)
            | (Inr response, w) \<Rightarrow>
                if \<not> OK response
                then (Some (ErrTelegramAPI (Description response) (ErrorCode response)), w)
                else (None, w))"

text \<open>The text SendTelegramNotification builds from a template, before the length check.\<close>

definition chatMessage :: "env \<Rightarrow> world \<Rightarrow> string \<Rightarrow> (string \<times> value) list \<Rightarrow> string" where
  "chatMessage e w template data =
     EscapeMarkdownV2 (renderTemplate template (fst (rangeMap e w data)))"


text \<open>
  The characters of a text, as opposed to its bytes: in UTF-8 every character has exactly
  one byte that is not a continuation byte (a byte from 0x80 to 0xBF).
\<close>

definition isContinuation :: "char \<Rightarrow> bool" where
  "isContinuation c = ((of_char c :: nat) div 64 = 2)"

definition runeCount :: "string \<Rightarrow> nat" where
  "runeCount s = length (filter (\<lambda>c. \<not> isContinuation c) s)"


text \<open>A sample service: both channels configured, an inline chat template for English.\<close>

definition sampleService :: ServiceConfig where
  "sampleService =
     \<lparr>Name = ''Codcl'',
      SMTP = \<lparr>User = ''u'', Password = ''p'', Host = ''mail.test'', Port = ''25'',
              From = ''noreply@codcl.test'', Admin = ''admin@codcl.test''\<rparr>,
      Telegram = \<lparr>BotToken = ''T'', ChatID = ''42''\<rparr>,
      EmailTemplates = Map.empty,
      TelegramTemplates = [''en'' \<mapsto> ''Order from {full_name}!''],
      TelegramTemplatePaths = Map.empty,
      EmailTemplateSubjectPaths = Map.empty,
      EmailTemplateBodyPaths = Map.empty,
      SupportedLangs = [''en'', ''ru'']\<rparr>"


subsection \<open>email.go: the email channel\<close>

definition SendOrderEmail ::
  "env \<Rightarrow> world \<Rightarrow> ServiceConfig \<Rightarrow> string \<Rightarrow> string \<Rightarrow> string \<Rightarrow> EmailAttachment list
     \<Rightarrow> error option \<times> world" where
  "SendOrderEmail e w service subject body recipient attachments =
     (if ParseAddressFails e recipient
      then (Some (Wrapped ''invalid recipient email'' ErrAddress), w)
      else
        let admin = Admin (SMTP service);
            msg = \<lparr>mailAddr = Host (SMTP service) @ '':'' @ Port (SMTP service),
                   mailFrom = From (SMTP service),
                   mailRecipients = (if admin \<noteq> [] then [recipient, admin] else [recipient]),
                   mailBcc = (if admin \<noteq> [] then Some admin else None),
                   mailSubject = subject, mailBody = body,
                   mailAttachments = attachments\<rparr>;
            w = w\<lparr>smtpLog := smtpLog w @ [msg]\<rparr>
        in if SendMailFails e msg then (Some (Wrapped ''SMTP send failed'' ErrSMTP), w)
           else (None, w))"

text \<open>The loop of PrepareAttachments: a file that cannot be read is skipped.\<close>

fun prepareLoop ::
  "env \<Rightarrow> world \<Rightarrow> (string \<times> string) list \<Rightarrow> EmailAttachment list \<Rightarrow> EmailAttachment list" where
  "prepareLoop e w [] attachments = attachments"
| "prepareLoop e w ((name, path) # rest) attachments =
     (case files w path of
        None \<Rightarrow> prepareLoop e w rest attachments
      | Some content \<Rightarrow>
          prepareLoop e w rest
            (attachments @ [\<lparr>AttachmentName = filepathBase e path, Content = content\<rparr>]))"

definition PrepareAttachments ::
  "env \<Rightarrow> world \<Rightarrow> (string \<times> string) list \<Rightarrow> (error + EmailAttachment list) \<times> world" where
  "PrepareAttachments e w filePaths =
     (let (entries, w) = rangeMap e w filePaths;
          attachments = prepareLoop e w entries []
      in if length attachments = 0 then (Inl ErrNoAttachments, w) else (Inr attachments, w))"

subsection \<open>handlers: the order handler\<close>

record ProjectOrder =
  FullName :: string
  CompanyName :: string
  Country :: string
  Address :: string
  ContactInfo :: string
  ProjectLink :: string
  PaymentMethod :: string
  StartDate :: string
  Language :: string
  BriefFile :: bytes
  SpecificationPdf :: bytes
  InvoicePdf :: bytes
  ContractPdf :: bytes

text \<open>
  A request: the result of decoding the JSON body (\<open>None\<close> when the decoder fails) and
  the headers the handlers read.
\<close>

record request =
  Decoded :: "ProjectOrder option"
  X_Service_Name :: string
  Accept_Language :: string
  X_Forwarded_For :: string
  X_Real_IP :: string
  RemoteAddr :: string
  UserAgent :: string

record response =
  statusCode :: nat
  payload :: "(string \<times> string) list"

definition respondWithJSON :: "nat \<Rightarrow> (string \<times> string) list \<Rightarrow> response" where
  "respondWithJSON code body = \<lparr>statusCode = code, payload = body\<rparr>"

definition respondWithError :: "nat \<Rightarrow> string \<Rightarrow> response" where
  "respondWithError code message = respondWithJSON code [(''error'', message)]"

text \<open>\<open>strings.Split(ip, ",")[0]\<close> is the text before the first comma.\<close>

definition GetRealIP :: "env \<Rightarrow> request \<Rightarrow> string" where
  "GetRealIP e r =
     (if X_Forwarded_For r \<noteq> []
      then TrimSpace e (takeWhile (\<lambda>c. c \<noteq> CHR '','') (X_Forwarded_For r))
      else if X_Real_IP r \<noteq> [] then X_Real_IP r
      else SplitHostPort e (RemoteAddr r))"

definition GetService :: "env \<Rightarrow> (string \<rightharpoonup> ServiceConfig) \<Rightarrow> string \<Rightarrow> ServiceConfig option" where
  "GetService e services name = services (ToLower e name)"

text \<open>
  The loop \<open>for _, path := range filePaths { _ = os.Remove(path) }\<close>, of cleanupFiles and
  of the failure branch of saveOrderFiles; removing a file that is not there is an error
  the code ignores.
\<close>

fun removeLoop :: "world \<Rightarrow> (string \<times> string) list \<Rightarrow> world" where
  "removeLoop w [] = w"
| "removeLoop w ((name, path) # rest) = removeLoop (Remove w path) rest"

definition cleanupFiles :: "env \<Rightarrow> world \<Rightarrow> (string \<times> string) list \<Rightarrow> world" where
  "cleanupFiles e w filePaths = (let (entries, w) = rangeMap e w filePaths in removeLoop w entries)"

text \<open>
  The loop of saveOrderFiles over the entries of \<open>files\<close>: at the first failure the
  files stored so far are removed and the error is returned.
\<close>

fun saveLoop ::
  "env \<Rightarrow> world \<Rightarrow> (string \<times> bytes) list \<Rightarrow> (string \<times> string) list
     \<Rightarrow> (error + (string \<times> string) list) \<times> world" where
  "saveLoop e w [] filePaths = (Inr filePaths, w)"
| "saveLoop e w ((name, content) # rest) filePaths =
     (case SaveTempFile e w content name of
        (Inl err, w) \<Rightarrow>
          (let (entries, w) = rangeMap e w filePaths
           in (Inl (Formatted (''failed to save '' @ name) err), removeLoop w entries))
      | (Inr fileInfo, w) \<Rightarrow> saveLoop e w rest (assign filePaths name (Path fileInfo)))"

definition saveOrderFiles ::
  "env \<Rightarrow> world \<Rightarrow> ProjectOrder \<Rightarrow> (error + (string \<times> string) list) \<times> world" where
  "saveOrderFiles e w order =
     (let fileMap = [(''specification'', SpecificationPdf order),
                     (''invoice'', InvoicePdf order),
                     (''contract'', ContractPdf order)];
          fileMap = (if length (BriefFile order) > 0
                     then assign fileMap ''brief'' (BriefFile order) else fileMap);
          (entries, w) = rangeMap e w fileMap
      in saveLoop e w entries [])"

definition orderRowOf :: "env \<Rightarrow> world \<Rightarrow> request \<Rightarrow> string \<Rightarrow> ProjectOrder \<Rightarrow> orderRow" where
  "orderRowOf e w r serviceName order =
     \<lparr>service_name = serviceName, full_name = FullName order,
      company_name = CompanyName order, contact_info = ContactInfo order,
      project_link = ProjectLink order, payment_method = PaymentMethod order,
      start_date = StartDate order, language = Language order,
      ip_address = GetRealIP e r, user_agent = UserAgent r, created_at = now w\<rparr>"

text \<open>The columns the INSERT of logOrderToDB names.\<close>

definition insertColumns :: "string list" where
  "insertColumns =
     [''service_name'', ''full_name'', ''company_name'', ''contact_info'', ''project_link'',
      ''payment_method'', ''start_date'', ''language'', ''ip_address'', ''user_agent'',
      ''created_at'']"

text \<open>
  \<open>db.Exec\<close> fails when the table does not accept the statement, or for a reason of the
  database itself (\<open>ExecFails\<close>).
\<close>

definition insertFails :: "env \<Rightarrow> (string \<times> bool) list \<Rightarrow> orderRow \<Rightarrow> bool" where
  "insertFails e table row = (ExecFails e row \<or> \<not> insertable table insertColumns)"

text \<open>The parameter \<open>lang\<close> of logOrderToDB is not used by its body.\<close>

definition logOrderToDB ::
  "env \<Rightarrow> world \<Rightarrow> request \<Rightarrow> string \<Rightarrow> string \<Rightarrow> ProjectOrder \<Rightarrow> error option \<times> world" where
  "logOrderToDB e w r serviceName lang order =
     (let row = orderRowOf e w r serviceName order
      in if insertFails e (orderColumns w) row then (Some ErrDB, w)
         else (None, w\<lparr>project_orders := project_orders w @ [row]\<rparr>))"

text \<open>
  One message part of the email, as the handler renders it: the default text, replaced
  by the filled content of the file when a path is configured for the language and the
  file can be read.
\<close>

definition renderEmailPart ::
  "env \<Rightarrow> world \<Rightarrow> (string \<rightharpoonup> string) \<Rightarrow> string \<Rightarrow> string \<Rightarrow> (string \<times> value) list
     \<Rightarrow> string \<times> world" where
  "renderEmailPart e w paths dflt lang templateData =
     (let path = index paths lang in
      if path \<noteq> []
      then (case files w path of
              Some raw \<Rightarrow>
                (let (entries, w) = rangeMap e w templateData in (FillTemplate raw entries, w))
            | None \<Rightarrow> (dflt, w))
      else (dflt, w))"

definition templateDataOf :: "ProjectOrder \<Rightarrow> string \<Rightarrow> ServiceConfig \<Rightarrow> (string \<times> value) list" where
  "templateDataOf order lang service =
     [(''full_name'', VString (FullName order)),
      (''company'', VString (CompanyName order)),
      (''contact'', VString (ContactInfo order)),
      (''project_link'', VString (ProjectLink order)),
      (''payment'', VString (PaymentMethod order)),
      (''start_date'', VString (StartDate order)),
      (''language'', VString lang),
      (''service_name'', VString (Name service))]"

text \<open>
  The handler from the point where the files are stored: rendering, the two channels, the
  audit row, the response, and the deferred cleanupFiles, which runs when the handler
  returns.
\<close>

definition defaultSubject :: string where
  "defaultSubject = ''Order Confirmation''"

definition defaultBody :: string where
  "defaultBody = ''Order received VibeCoders Club by Aleksandr Shaman - www.codcl.com''"

definition dispatchOrder ::
  "env \<Rightarrow> world \<Rightarrow> request \<Rightarrow> ProjectOrder \<Rightarrow> string \<Rightarrow> ServiceConfig \<Rightarrow> string
     \<Rightarrow> (string \<times> string) list \<Rightarrow> response \<times> world" where
  "dispatchOrder e w r order serviceName service lang filePaths =
     (let templateData = templateDataOf order lang service;
          subject = defaultSubject;
          body = defaultBody;
          (subject, w) = renderEmailPart e w (EmailTemplateSubjectPaths service)
                           subject lang templateData;
          (body, w) = renderEmailPart e w (EmailTemplateBodyPaths service)
                           body lang templateData;
          (prepared, w) = PrepareAttachments e w filePaths;
          w = (case prepared of
                 Inr attachments \<Rightarrow>
                   snd (SendOrderEmail e
                          (w\<lparr>calls := calls w @ [SendOrderEmailCall service subject body
                                                   (ContactInfo order) attachments]\<rparr>)
                          service subject body (ContactInfo order) attachments)
               | Inl err \<Rightarrow> w);
          w = snd (SendTelegramNotification e
                     (w\<lparr>calls := calls w @ [SendTelegramNotificationCall service lang templateData]\<rparr>)
                     service lang templateData);
          w = snd (logOrderToDB e
                     (w\<lparr>calls := calls w @ [logOrderToDBCall (orderRowOf e w r serviceName order)]\<rparr>)
                     r serviceName lang order);
          resp = respondWithJSON 200
                   [(''status'', ''success''), (''service'', serviceName), (''lang'', lang)]
      in (resp, cleanupFiles e w filePaths))"

definition HandleProjectOrder ::
  "env \<Rightarrow> (string \<rightharpoonup> ServiceConfig) \<Rightarrow> world \<Rightarrow> request \<Rightarrow> response \<times> world" where
  "HandleProjectOrder e services w r =
     (case Decoded r of
        None \<Rightarrow> (respondWithError 400 ''Invalid request payload'', w)
      | Some order \<Rightarrow>
          if FullName order = [] \<or> ContactInfo order = [] \<or> PaymentMethod order = []
          then (respondWithError 400 ''Missing required fields'', w)
          else if \<not> ValidatePDF e (SpecificationPdf order) \<or> \<not> ValidatePDF e (InvoicePdf order)
                  \<or> \<not> ValidatePDF e (ContractPdf order)
          then (respondWithError 400 ''Invalid PDF files'', w)
          else
            let serviceName = X_Service_Name r in
            if serviceName = [] then (respondWithError 400 ''Missing X-Service-Name'', w)
            else
              let lang = requestedLang (Language order) (Accept_Language r) in
              case GetService e services serviceName of
                None \<Rightarrow> (respondWithError 400 ''Service not configured'', w)
              | Some service \<Rightarrow>
                  let lang = supportedOrFirst (SupportedLangs service) lang in
                  case saveOrderFiles e w order of
                    (Inl err, w) \<Rightarrow> (respondWithError 500 ''Failed to save files'', w)
                  | (Inr filePaths, w) \<Rightarrow>
                      dispatchOrder e w r order serviceName service lang filePaths)"


text \<open>
  The same environment with other answers of the mail address parser, the mail server
  and the bot API: everything the two channels depend on outside the program.
\<close>

definition withChannels ::
  "env \<Rightarrow> (string \<Rightarrow> bool) \<Rightarrow> (mail \<Rightarrow> bool) \<Rightarrow> (telegramRequest \<Rightarrow> httpResult)
     \<Rightarrow> (string \<Rightarrow> TelegramResponse option) \<Rightarrow> env" where
  "withChannels e pa sm hp um =
     e\<lparr>ParseAddressFails := pa, SendMailFails := sm, httpPost := hp, Unmarshal := um\<rparr>"

text \<open>A sample order, request and registry.\<close>

definition sampleOrder :: ProjectOrder where
  "sampleOrder =
     \<lparr>FullName = ''Ann Lee'', CompanyName = ''ACME'', Country = ''NL'', Address = [],
      ContactInfo = ''ann@acme.test'', ProjectLink = [], PaymentMethod = ''card'',
      StartDate = ''2025-07-04'', Language = ''fr'', BriefFile = [],
      SpecificationPdf = ''%PDF-1.4 spec'', InvoicePdf = ''%PDF-1.4 inv'',
      ContractPdf = ''%PDF-1.4 con''\<rparr>"

definition sampleRequest :: request where
  "sampleRequest =
     \<lparr>Decoded = Some sampleOrder, X_Service_Name = ''codcl'', Accept_Language = [],
      X_Forwarded_For = [], X_Real_IP = ''10.0.0.7'', RemoteAddr = ''10.0.0.1:5050'',
      UserAgent = ''curl''\<rparr>"

definition sampleServices :: "string \<rightharpoonup> ServiceConfig" where
  "sampleServices = [''codcl'' \<mapsto> sampleService]"










subsection \<open>Middleware: RateLimitMiddleware\<close>

text \<open>
  \<open>rate.Limiter\<close> belongs to golang.org/x/time/rate, outside the repository. It is
  modelled at one instant, with no refill between the requests considered: a bucket that
  starts with \<open>burst\<close> tokens; every \<open>Wait\<close> reserves one token, and a request that
  finds none left is suspended for one refill interval per missing token (and fails
  with 429 when its context ends first).
\<close>

record Limiter =
  every :: nat
  burst :: nat
  tokens :: int

definition NewLimiter :: "nat \<Rightarrow> nat \<Rightarrow> Limiter" where
  "NewLimiter interval b = \<lparr>every = interval, burst = b, tokens = int b\<rparr>"

text \<open>The delay of the request in milliseconds, and the limiter after the reservation.\<close>

definition Wait :: "Limiter \<Rightarrow> nat \<times> Limiter" where
  "Wait l =
     ((if tokens l \<ge> 1 then 0 else nat (1 - tokens l) * every l),
      l\<lparr>tokens := tokens l - 1\<rparr>)"

text \<open>
  The state the middleware closes over. Limiters are objects on the heap, reached through
  pointers: \<open>heap\<close> maps an address to a limiter, \<open>limiters\<close> is the Go map from the
  client IP to a pointer, \<open>limiter\<close> the pointer created when the middleware is built.
\<close>

record rateLimit =
  heap :: "nat \<rightharpoonup> Limiter"
  limiters :: "string \<rightharpoonup> nat"
  limiter :: nat

definition RateLimitMiddleware :: rateLimit where
  "RateLimitMiddleware =
     \<lparr>heap = [0 \<mapsto> NewLimiter (60000 div 10) 10], limiters = Map.empty, limiter = 0\<rparr>"

text \<open>
  One request through the handler the middleware returns: the delay before
  \<open>next.ServeHTTP\<close> runs, and the new state.
\<close>

definition serveRateLimited :: "env \<Rightarrow> rateLimit \<Rightarrow> request \<Rightarrow> nat \<times> rateLimit" where
  "serveRateLimited e st r =
     (let clientIP = GetRealIP e r;
          (l, st) = (case limiters st clientIP of
                       Some l \<Rightarrow> (l, st)
                     | None \<Rightarrow> (limiter st, st\<lparr>limiters := (limiters st)(clientIP \<mapsto> limiter st)\<rparr>))
      in case heap st l of
           Some lim \<Rightarrow> (let (delay, lim) = Wait lim in (delay, st\<lparr>heap := (heap st)(l \<mapsto> lim)\<rparr>))
         | None \<Rightarrow> (0, st))"

fun serveAll :: "env \<Rightarrow> rateLimit \<Rightarrow> request list \<Rightarrow> nat list \<times> rateLimit" where
  "serveAll e st [] = ([], st)"
| "serveAll e st (r # rs) =
     (let (delay, st) = serveRateLimited e st r;
          (delays, st) = serveAll e st rs
      in (delay # delays, st))"

definition requestFrom :: "string \<Rightarrow> request" where
  "requestFrom ip =
     \<lparr>Decoded = None, X_Service_Name = [], Accept_Language = [], X_Forwarded_For = [],
      X_Real_IP = ip, RemoteAddr = [], UserAgent = []\<rparr>"


section \<open>Theorems\<close>

declare natDecimal.simps [simp del]

lemma sampleEnv_simps [simp]:
  "IsMIME sampleEnv = (\<lambda>buf mime. mime = ''application/pdf'' \<and> prefix ''%PDF'' buf)"
  "DetectContentType sampleEnv =
     (\<lambda>buf. if prefix ''%PDF-'' buf then ''application/pdf'' else ''application/octet-stream'')"
  "Sum256 sampleEnv = (\<lambda>buf. [CHR 0x01, CHR 0xAB])"
  "uuidNew sampleEnv = (\<lambda>n. ''id'' @ natDecimal n)"
  "filepathJoin sampleEnv =
     (\<lambda>elems. case elems of [] \<Rightarrow> [] | x # xs \<Rightarrow> foldl (\<lambda>a b. a @ ''/'' @ b) x xs)"
  "filepathBase sampleEnv = (\<lambda>path. rev (takeWhile (\<lambda>c. c \<noteq> CHR ''/'') (rev path)))"
  "ToLower sampleEnv = (\<lambda>s. s)"
  "TrimSpace sampleEnv = (\<lambda>s. s)"
  "SplitHostPort sampleEnv = (\<lambda>s. takeWhile (\<lambda>c. c \<noteq> CHR '':'') s)"
  "rangeOrder sampleEnv = (\<lambda>n ks. ks)"
  "MkdirAllFails sampleEnv = (\<lambda>path. False)"
  "WriteFile sampleEnv = (\<lambda>path buf. Written)"
  "ParseAddressFails sampleEnv = (\<lambda>addr. CHR ''@'' \<notin> set addr)"
  "SendMailFails sampleEnv = (\<lambda>m. False)"
  "httpPost sampleEnv = (\<lambda>req. Response 200 ''ok'')"
  "Unmarshal sampleEnv = (\<lambda>body. Some \<lparr>OK = True, Description = [], ErrorCode = 0\<rparr>)"
  "ExecFails sampleEnv = (\<lambda>row. False)"
  by (simp_all add: sampleEnv_def)

lemma emptyWorld_simps [simp]:
  "files emptyWorld = Map.empty" "uuidCount emptyWorld = 0" "rangeCount emptyWorld = 0"
  "now emptyWorld = 0" "scheduled emptyWorld = []" "smtpLog emptyWorld = []"
  "telegramLog emptyWorld = []" "project_orders emptyWorld = []" "calls emptyWorld = []"
  "orderColumns emptyWorld = init_project_orders"
  by (simp_all add: emptyWorld_def)

lemma Contains_set: "Contains xs item \<longleftrightarrow> item \<in> set xs"
  by (induction xs) auto

text \<open>
  C2. Language negotiation is a total function of the supported languages, the language of
  the body and the locale hint: an empty request falls back to the hint and then to "en";
  a code outside the supported list is replaced by the first supported language, or by
  "en" when the list is empty. With the languages en, ru an empty request with an empty
  hint gives "en", and so does a request for "fr".
\<close>

theorem negotiateLanguage_total:
  "negotiateLanguage langs req hint =
     (let wanted = (if req \<noteq> [] then req else if hint \<noteq> [] then hint else ''en'')
      in if wanted \<in> set langs then wanted
         else if langs = [] then ''en'' else hd langs)
   \<and> negotiateLanguage [''en'', ''ru''] [] [] = ''en''
   \<and> negotiateLanguage [''en'', ''ru''] ''fr'' [] = ''en''"
  by (cases langs)
     (simp_all add: negotiateLanguage_def supportedOrFirst_def requestedLang_def Contains_set Let_def)

theorem negotiateLanguage_total_witness:
  "negotiateLanguage [''ru'', ''es''] [] ''de'' = ''ru''
   \<and> negotiateLanguage [] [] [] = ''en''
   \<and> negotiateLanguage [''ru'', ''es''] ''es'' ''ru'' = ''es''"
  using negotiateLanguage_total [of "[''ru'', ''es'']" "[]" "''de''"]
        negotiateLanguage_total [of "[]" "[]" "[]"]
        negotiateLanguage_total [of "[''ru'', ''es'']" "''es''" "''ru''"]
  by (simp add: Let_def)

text \<open>
  C3. For every byte buffer, ValidatePDF is true exactly when the buffer starts with the
  five bytes of the PDF signature and the independent sniff agrees on application/pdf; a
  buffer of fewer than five bytes, or one that passes only one of the two checks, is
  rejected.
\<close>

theorem ValidatePDF_iff:
  "(ValidatePDF e data \<longleftrightarrow> prefix ''%PDF-'' data \<and> IsMIME e data ''application/pdf'')
   \<and> (length data < 5 \<longrightarrow> \<not> ValidatePDF e data)
   \<and> (prefix ''%PDF-'' data \<and> \<not> IsMIME e data ''application/pdf'' \<longrightarrow> \<not> ValidatePDF e data)
   \<and> (\<not> prefix ''%PDF-'' data \<and> IsMIME e data ''application/pdf'' \<longrightarrow> \<not> ValidatePDF e data)"
  by (auto simp: ValidatePDF_def PDFMagicNumber_def dest: prefix_length_le)

theorem ValidatePDF_iff_witness:
  "ValidatePDF sampleEnv ''%PDF-1.7''
   \<and> \<not> ValidatePDF sampleEnv ''%PD''
   \<and> \<not> ValidatePDF (sampleEnv\<lparr>IsMIME := \<lambda>buf mime. False\<rparr>) ''%PDF-1.7''
   \<and> \<not> ValidatePDF sampleEnv ''%PDFx1.7''"
  using ValidatePDF_iff [of sampleEnv "''%PDF-1.7''"]
        ValidatePDF_iff [of sampleEnv "''%PD''"]
        ValidatePDF_iff [of "sampleEnv\<lparr>IsMIME := \<lambda>buf mime. False\<rparr>" "''%PDF-1.7''"]
        ValidatePDF_iff [of sampleEnv "''%PDFx1.7''"]
  by simp

subsection \<open>Template filling\<close>

lemma ReplaceAll_skip:
  "CHR ''{'' \<notin> set s \<Longrightarrow>
   ReplaceAll (s @ rest) (CHR ''{'' # old) new = s @ ReplaceAll rest (CHR ''{'' # old) new"
  by (induction s) auto

lemma FillTemplate_no_brace: "CHR ''{'' \<notin> set t \<Longrightarrow> FillTemplate t data = t"
proof (induction data arbitrary: t)
  case Nil
  then show ?case by simp
next
  case (Cons kv data)
  obtain k v where kv: "kv = (k, v)" by (cases kv)
  from ReplaceAll_skip [OF Cons.prems, of "[]" "k @ ''}''"]
  have "ReplaceAll t (''{'' @ k @ ''}'') (case v of VString s \<Rightarrow> s | _ \<Rightarrow> Sprintf_v v) = t"
    by simp
  with Cons kv show ?case by (simp del: ReplaceAll.simps)
qed

lemma key_prefix_eq:
  "CHR ''}'' \<notin> set k \<Longrightarrow> CHR ''}'' \<notin> set k' \<Longrightarrow>
   prefix (k @ CHR ''}'' # x) (k' @ CHR ''}'' # y) \<Longrightarrow> k = k'"
proof (induction k arbitrary: k')
  case Nil
  then show ?case by (cases k') auto
next
  case (Cons a k)
  then show ?case by (cases k') auto
qed

lemma ReplaceAll_token_hit:
  "ReplaceAll (CHR ''{'' # k @ CHR ''}'' # rest) (CHR ''{'' # k @ ''}'') new
     = new @ ReplaceAll rest (CHR ''{'' # k @ ''}'') new"
  by simp

lemma ReplaceAll_token_miss:
  assumes "CHR ''}'' \<notin> set k" "CHR ''}'' \<notin> set k'" "CHR ''{'' \<notin> set k'" "k \<noteq> k'"
  shows "ReplaceAll (CHR ''{'' # k' @ CHR ''}'' # rest) (CHR ''{'' # k @ ''}'') new
     = CHR ''{'' # k' @ CHR ''}'' # ReplaceAll rest (CHR ''{'' # k @ ''}'') new"
proof -
  have np: "\<not> prefix (k @ ''}'') (k' @ CHR ''}'' # rest)"
    using key_prefix_eq [of k k' "[]" rest] assms by auto
  have "ReplaceAll ((k' @ ''}'') @ rest) (CHR ''{'' # k @ ''}'') new
          = (k' @ ''}'') @ ReplaceAll rest (CHR ''{'' # k @ ''}'') new"
    by (rule ReplaceAll_skip) (use assms in auto)
  with np show ?thesis by simp
qed

lemma ReplaceAll_flat:
  assumes "\<forall>p \<in> set ps. wfPart p" "CHR ''}'' \<notin> set k"
  shows "ReplaceAll (flat ps) (''{'' @ k @ ''}'') v = flat (map (replacePart k v) ps)"
  using assms(1)
proof (induction ps)
  case Nil
  then show ?case by (simp add: flat_def)
next
  case (Cons p ps)
  then have IH: "ReplaceAll (flat ps) (''{'' @ k @ ''}'') v = flat (map (replacePart k v) ps)"
    by simp
  show ?case
  proof (cases p)
    case (Lit s)
    with Cons.prems have "CHR ''{'' \<notin> set s" by simp
    from ReplaceAll_skip [OF this, of "flat ps" "k @ ''}''" v] IH Lit
    show ?thesis by (simp add: flat_def)
  next
    case (Tok k')
    with Cons.prems have k': "CHR ''{'' \<notin> set k'" "CHR ''}'' \<notin> set k'" by simp_all
    show ?thesis
    proof (cases "k' = k")
      case True
      with Tok IH ReplaceAll_token_hit [of k "flat ps" v] show ?thesis
        by (simp add: flat_def)
    next
      case False
      with Tok IH ReplaceAll_token_miss [OF assms(2) k'(2) k'(1), of "flat ps" v] show ?thesis
        by (auto simp add: flat_def)
    qed
  qed
qed

lemma wf_replacePart: "wfPart p \<Longrightarrow> CHR ''{'' \<notin> set v \<Longrightarrow> wfPart (replacePart k v p)"
  by (cases p) auto

lemma substPart_replacePart:
  "m k = None \<Longrightarrow> substPart m (replacePart k (Sprintf_v v) p) = substPart (m(k \<mapsto> v)) p"
  by (cases p) auto

lemma strValue_eq: "(case val of VString s \<Rightarrow> s | _ \<Rightarrow> Sprintf_v val) = Sprintf_v val"
  by (cases val) auto

lemma FillTemplate_flat:
  assumes "\<forall>p \<in> set ps. wfPart p"
      and "distinct (map fst data)"
      and "\<forall>(k, v) \<in> set data. CHR ''}'' \<notin> set k \<and> CHR ''{'' \<notin> set (Sprintf_v v)"
  shows "FillTemplate (flat ps) data = substTokens (map_of data) ps"
  using assms
proof (induction data arbitrary: ps)
  case Nil
  have "substPart Map.empty = flatPart"
  proof
    fix p show "substPart Map.empty p = flatPart p" by (cases p) auto
  qed
  then show ?case by (simp add: substTokens_def flat_def)
next
  case (Cons kv data)
  obtain k v where kv: "kv = (k, v)" by (cases kv)
  from Cons.prems kv have k: "CHR ''}'' \<notin> set k" and v: "CHR ''{'' \<notin> set (Sprintf_v v)"
    and notin: "map_of data k = None" and dist: "distinct (map fst data)"
    and rest: "\<forall>(k, v) \<in> set data. CHR ''}'' \<notin> set k \<and> CHR ''{'' \<notin> set (Sprintf_v v)"
    by (auto simp: map_of_eq_None_iff)
  let ?ps = "map (replacePart k (Sprintf_v v)) ps"
  have wf: "\<forall>p \<in> set ?ps. wfPart p"
    using Cons.prems(1) v by (auto intro: wf_replacePart)
  have "FillTemplate (flat ps) (kv # data) = FillTemplate (flat ?ps) data"
    using ReplaceAll_flat [OF Cons.prems(1) k, of "Sprintf_v v"] kv
    by (simp add: strValue_eq del: ReplaceAll.simps)
  also have "\<dots> = substTokens (map_of data) ?ps"
    by (rule Cons.IH [OF wf dist rest])
  also have "\<dots> = substTokens (map_of (kv # data)) ps"
    using substPart_replacePart [of "map_of data" k v] notin kv
    by (simp add: substTokens_def comp_def)
  finally show ?case .
qed

lemma ReplaceAll_absent:
  "old \<noteq> [] \<Longrightarrow> \<not> sublist old s \<Longrightarrow> ReplaceAll s old new = s"
proof (induction s)
  case Nil
  then show ?case by simp
next
  case (Cons c cs)
  from Cons.prems(2) have np: "\<not> prefix old (c # cs)" and ns: "\<not> sublist old cs"
    by (simp_all add: sublist_Cons_right)
  have IH: "ReplaceAll cs old new = cs" by (rule Cons.IH [OF Cons.prems(1) ns])
  have "ReplaceAll (c # cs) old new = c # ReplaceAll cs old new"
    using Cons.prems(1) np by (simp only: ReplaceAll.simps if_False)
  then show ?case by (simp only: IH)
qed

lemma FillTemplate_no_placeholder:
  "\<forall>(k, v) \<in> set data. \<not> sublist (''{'' @ k @ ''}'') t \<Longrightarrow> FillTemplate t data = t"
proof (induction data)
  case Nil
  then show ?case by simp
next
  case (Cons kv data)
  obtain k v where kv: "kv = (k, v)" by (cases kv)
  with Cons.prems have "\<not> sublist (''{'' @ k @ ''}'') t" by simp
  from ReplaceAll_absent [OF _ this]
  have "ReplaceAll t (''{'' @ k @ ''}'') (case v of VString s \<Rightarrow> s | _ \<Rightarrow> Sprintf_v v) = t"
    by simp
  with Cons kv show ?case by (simp del: ReplaceAll.simps)
qed

text \<open>
  C8 does not hold of the code. FillTemplate replaces one key after the other, in the
  order in which Go visits the map, so the text put in for one key is searched again for
  the keys that follow, and the result depends on that order. With the template
  \<open>{a}{b}\<close> and the map a = \<open>{b}\<close>, b = \<open>{a}\<close> the tokens should become \<open>{b}{a}\<close>;
  FillTemplate returns \<open>{a}{a}\<close> in one order and \<open>{b}{b}\<close> in the other. The handler
  reaches this with the fields of the request: a customer whose name is the text
  \<open>{company}\<close> is greeted by the name of the company in one order and by \<open>{company}\<close>
  in the other.
\<close>

theorem FillTemplate_order_dependent:
  "FillTemplate ''{a}{b}'' [(''a'', VString ''{b}''), (''b'', VString ''{a}'')] = ''{a}{a}''
   \<and> FillTemplate ''{a}{b}'' [(''b'', VString ''{a}''), (''a'', VString ''{b}'')] = ''{b}{b}''
   \<and> substTokens (map_of [(''a'', VString ''{b}''), (''b'', VString ''{a}'')]) [Tok ''a'', Tok ''b'']
       = ''{b}{a}''
   \<and> FillTemplate ''Dear {full_name} of {company}''
         (templateDataOf (sampleOrder\<lparr>FullName := ''{company}''\<rparr>) ''en'' sampleService)
       = ''Dear ACME of ACME''
   \<and> FillTemplate ''Dear {full_name} of {company}''
         (rev (templateDataOf (sampleOrder\<lparr>FullName := ''{company}''\<rparr>) ''en'' sampleService))
       = ''Dear {company} of ACME''"
  by (simp add: substTokens_def templateDataOf_def sampleOrder_def)

subsection \<open>Markdown escaping\<close>

lemma ReplaceAll_char:
  "ReplaceAll s [x] new = concat (map (\<lambda>c. if c = x then new else [c]) s)"
  by (induction s) auto

lemma EscapeMarkdownV2_single_pass: "EscapeMarkdownV2 s = concat (map escChar s)"
  by (induction s)
     (simp_all add: EscapeMarkdownV2_def specials_def ReplaceAll_char escChar_def backslash_def)


subsection \<open>File store\<close>

lemma MaxFileSize_bound: "n \<le> MaxFileSize \<Longrightarrow> sint (of_nat n :: 64 word) = int n"
  by (simp add: signed_of_nat signed_take_bit_int_eq_self MaxFileSize_def)

lemma SaveTempFile_named_errors:
  "(length data > MaxFileSize \<longrightarrow> SaveTempFile e w data pre = (Inl ErrFileTooLarge, w))
   \<and> (length data \<le> MaxFileSize \<and> \<not> MkdirAllFails e (filepathJoin e [''app'', ''storage'', ''temp''])
        \<and> WriteFile e (tempPath e w pre) data = Written
        \<and> \<not> prefix ''application/pdf'' (DetectContentType e data)
      \<longrightarrow> fst (SaveTempFile e w data pre) = Inl ErrInvalidFileType
          \<and> files (snd (SaveTempFile e w data pre)) = (files w)(tempPath e w pre := None))"
  by (auto simp: SaveTempFile_def Let_def Remove_def tempPath_def)

text \<open>
  C4 does not hold of the code. SaveTempFile returns the error of \<open>os.WriteFile\<close> without
  removing the file, although \<open>os.WriteFile\<close> creates the file before it writes: when the
  write fails after \<open>n\<close> bytes, SaveTempFile returns an error and the file it created
  stays in the store with those bytes. The branch for a wrong type, a few lines below,
  does remove the file it wrote.
\<close>

theorem SaveTempFile_partial_file:
  assumes "length data \<le> MaxFileSize"
      and "\<not> MkdirAllFails e (filepathJoin e [''app'', ''storage'', ''temp''])"
      and "WriteFile e (tempPath e w pre) data = WriteFailed n"
  shows "fst (SaveTempFile e w data pre)
           = Inl (Wrapped ''failed to write file'' (ErrOS (tempPath e w pre)))
       \<and> files (snd (SaveTempFile e w data pre)) (tempPath e w pre) = Some (take n data)"
  using assms by (simp add: SaveTempFile_def Let_def tempPath_def)

theorem SaveTempFile_partial_file_witness:
  "fst (SaveTempFile (sampleEnv\<lparr>WriteFile := \<lambda>path buf. WriteFailed 3\<rparr>) emptyWorld ''%PDF-1.4 x'' ''invoice'')
     = Inl (Wrapped ''failed to write file'' (ErrOS ''app/storage/temp/invoice_id0.pdf''))
   \<and> files (snd (SaveTempFile (sampleEnv\<lparr>WriteFile := \<lambda>path buf. WriteFailed 3\<rparr>) emptyWorld
                   ''%PDF-1.4 x'' ''invoice''))
       ''app/storage/temp/invoice_id0.pdf'' = Some ''%PD''
   \<and> files (snd (SaveTempFile sampleEnv emptyWorld ''GIF89a'' ''invoice''))
       ''app/storage/temp/invoice_id0.pdf'' = None"
proof -
  let ?e = "sampleEnv\<lparr>WriteFile := \<lambda>path buf. WriteFailed 3\<rparr>"
  have p: "tempPath ?e emptyWorld ''invoice'' = ''app/storage/temp/invoice_id0.pdf''"
    "tempPath sampleEnv emptyWorld ''invoice'' = ''app/storage/temp/invoice_id0.pdf''"
    by (simp_all add: tempPath_def natDecimal.simps [of 0] digit_def)
  have 1: "length ''%PDF-1.4 x'' \<le> MaxFileSize" "length ''GIF89a'' \<le> MaxFileSize"
    by (simp_all add: MaxFileSize_def)
  have 2: "\<not> MkdirAllFails ?e (filepathJoin ?e [''app'', ''storage'', ''temp''])" by simp
  have 3: "WriteFile ?e (tempPath ?e emptyWorld ''invoice'') ''%PDF-1.4 x'' = WriteFailed 3" by simp
  from SaveTempFile_partial_file [OF 1(1) 2 3]
       SaveTempFile_named_errors [of "''GIF89a''" sampleEnv emptyWorld "''invoice''"] 1(2) p
  show ?thesis by simp
qed

text \<open>
  C9. After a successful SaveTempFile the file at the returned path holds exactly the
  bytes of the input, the Sha256 field is the hexadecimal form of the SHA-256 digest of
  the input, and Size is the length of the input.
\<close>

theorem SaveTempFile_roundtrip:
  assumes "SaveTempFile e w data pre = (Inr info, w')"
  shows "files w' (Path info) = Some data
       \<and> Sha256 info = EncodeToString (Sum256 e data)
       \<and> sint (Size info) = int (length data)"
  using assms MaxFileSize_bound [of "length data"]
  by (auto simp: SaveTempFile_def Let_def Remove_def split: if_splits writeResult.splits)

theorem SaveTempFile_roundtrip_witness:
  "\<exists>info w'. SaveTempFile sampleEnv emptyWorld ''%PDF-1.4 x'' ''invoice'' = (Inr info, w')
     \<and> Path info = ''app/storage/temp/invoice_id0.pdf''
     \<and> files w' (Path info) = Some ''%PDF-1.4 x''
     \<and> Sha256 info = ''01ab''
     \<and> sint (Size info) = 10"
proof -
  obtain info w' where eq: "SaveTempFile sampleEnv emptyWorld ''%PDF-1.4 x'' ''invoice'' = (Inr info, w')"
    and p: "Path info = ''app/storage/temp/invoice_id0.pdf''"
    by (simp add: SaveTempFile_def Let_def MaxFileSize_def natDecimal.simps [of 0] digit_def)
  have "EncodeToString [CHR 0x01, CHR 0xAB] = ''01ab''"
    by (simp add: EncodeToString_def hextable_def)
  with SaveTempFile_roundtrip [OF eq] eq p show ?thesis by simp
qed


subsection \<open>The chat channel\<close>

lemma sendTelegramRequest_log:
  "telegramLog (snd (sendTelegramRequest e w tok chat msg))
     = telegramLog w @ [\<lparr>token = tok, chat_id = chat, text_field = msg,
                         parse_mode = ''MarkdownV2'', disable_web_page_preview = True\<rparr>]"
  by (simp add: sendTelegramRequest_def Let_def split: httpResult.splits option.splits)

lemma sendTelegramRequest_not_too_long:
  "fst (sendTelegramRequest e w tok chat msg) = Inl err \<Longrightarrow> \<not> errorsIs err ErrMessageTooLong"
  by (auto simp: sendTelegramRequest_def Let_def split: httpResult.splits option.splits if_splits)

lemma rangeMap_telegramLog: "telegramLog (snd (rangeMap e w m)) = telegramLog w"
  by (simp add: rangeMap_def)

lemma SendTelegramNotification_cases:
  assumes "Configured (Telegram service)"
      and "getLocalizedTemplate w service lang = Inr template"
  shows "EscapeMarkdownV2 s = concat (map escChar s)
       \<and> EscapeMarkdownV2 ''a.b!c'' = [CHR ''a'', backslash, CHR ''.'', CHR ''b'', backslash, CHR ''!'', CHR ''c'']
       \<and> ((\<exists>err. fst (SendTelegramNotification e w service lang data) = Some err
                 \<and> errorsIs err ErrMessageTooLong)
            \<longleftrightarrow> length (chatMessage e w template data) > 4096)
       \<and> (length (chatMessage e w template data) > 4096
            \<longrightarrow> telegramLog (snd (SendTelegramNotification e w service lang data)) = telegramLog w)
       \<and> (length (chatMessage e w template data) \<le> 4096
            \<longrightarrow> telegramLog (snd (SendTelegramNotification e w service lang data))
                = telegramLog w @ [\<lparr>token = BotToken (Telegram service), chat_id = ChatID (Telegram service),
                                    text_field = chatMessage e w template data,
                                    parse_mode = ''MarkdownV2'', disable_web_page_preview = True\<rparr>])"
proof -
  let ?w = "snd (rangeMap e w data)"
  let ?msg = "chatMessage e w template data"
  let ?req = "sendTelegramRequest e ?w (BotToken (Telegram service)) (ChatID (Telegram service)) ?msg"
  have long: "length ?msg > 4096 \<Longrightarrow>
      SendTelegramNotification e w service lang data
        = (Some (Wrapped (intDecimal (int (length ?msg)) @ '' > '' @ intDecimal (int maxMessageLength))
                   ErrMessageTooLong), ?w)"
    using assms
    by (simp add: SendTelegramNotification_def chatMessage_def maxMessageLength_def Let_def case_prod_beta)
  have short: "length ?msg \<le> 4096 \<Longrightarrow>
      SendTelegramNotification e w service lang data
        = (case ?req of
             (Inl err, w') \<Rightarrow> (Some (Wrapped ''send failed'' err), w')
           | (Inr response, w') \<Rightarrow>
               if \<not> OK response
               then (Some (ErrTelegramAPI (Description response) (ErrorCode response)), w')
               else (None, w'))"
    using assms
    by (simp add: SendTelegramNotification_def chatMessage_def maxMessageLength_def Let_def case_prod_beta)
  have short_err: "length ?msg \<le> 4096 \<Longrightarrow>
      fst (SendTelegramNotification e w service lang data) = Some err \<Longrightarrow> \<not> errorsIs err ErrMessageTooLong" for err
    using sendTelegramRequest_not_too_long [of e ?w "BotToken (Telegram service)" "ChatID (Telegram service)" ?msg]
    by (auto simp: short split: prod.splits sum.splits if_splits)
  have short_log: "length ?msg \<le> 4096 \<Longrightarrow>
      telegramLog (snd (SendTelegramNotification e w service lang data)) = telegramLog (snd ?req)"
    by (auto simp: short split: prod.splits sum.splits if_splits)
  have c1: "EscapeMarkdownV2 s = concat (map escChar s)" by (rule EscapeMarkdownV2_single_pass)
  have c2: "EscapeMarkdownV2 ''a.b!c'' = [CHR ''a'', backslash, CHR ''.'', CHR ''b'', backslash, CHR ''!'', CHR ''c'']"
    by (simp add: EscapeMarkdownV2_def specials_def backslash_def)
  have c3: "(\<exists>err. fst (SendTelegramNotification e w service lang data) = Some err
                 \<and> errorsIs err ErrMessageTooLong) \<longleftrightarrow> length ?msg > 4096"
  proof (cases "length ?msg > 4096")
    case True
    then show ?thesis by (simp add: long)
  next
    case False
    then show ?thesis using short_err by auto
  qed
  have c4: "length ?msg > 4096
            \<longrightarrow> telegramLog (snd (SendTelegramNotification e w service lang data)) = telegramLog w"
    by (simp add: long rangeMap_telegramLog)
  have c5: "length ?msg \<le> 4096
            \<longrightarrow> telegramLog (snd (SendTelegramNotification e w service lang data))
                = telegramLog w @ [\<lparr>token = BotToken (Telegram service), chat_id = ChatID (Telegram service),
                                    text_field = ?msg,
                                    parse_mode = ''MarkdownV2'', disable_web_page_preview = True\<rparr>]"
    by (simp add: short_log sendTelegramRequest_log rangeMap_telegramLog)
  from c1 c2 c3 c4 c5 show ?thesis by blast
qed


lemma sampleService_simps [simp]:
  "Name sampleService = ''Codcl''"
  "SMTP sampleService = \<lparr>User = ''u'', Password = ''p'', Host = ''mail.test'', Port = ''25'',
              From = ''noreply@codcl.test'', Admin = ''admin@codcl.test''\<rparr>"
  "Telegram sampleService = \<lparr>BotToken = ''T'', ChatID = ''42''\<rparr>"
  "EmailTemplates sampleService = Map.empty"
  "TelegramTemplates sampleService = [''en'' \<mapsto> ''Order from {full_name}!'']"
  "TelegramTemplatePaths sampleService = Map.empty"
  "EmailTemplateSubjectPaths sampleService = Map.empty"
  "EmailTemplateBodyPaths sampleService = Map.empty"
  "SupportedLangs sampleService = [''en'', ''ru'']"
  by (simp_all add: sampleService_def)

lemma length_escape_replicate:
  "length (EscapeMarkdownV2 (replicate n (CHR ''x''))) = n"
  by (induction n) (simp_all add: EscapeMarkdownV2_single_pass escChar_def specials_def)

lemma escape_cyrillic:
  "EscapeMarkdownV2 (concat (replicate n [CHR 0xD0, CHR 0x96])) = concat (replicate n [CHR 0xD0, CHR 0x96])"
  by (induction n) (simp_all add: EscapeMarkdownV2_single_pass escChar_def specials_def)

lemma runeCount_cyrillic: "runeCount (concat (replicate n [CHR 0xD0, CHR 0x96])) = n"
  by (induction n) (simp_all add: runeCount_def isContinuation_def)

text \<open>
  C6, as stated, fails on text outside ASCII: the handler compares \<open>len(message)\<close>, the
  number of bytes, with 4096. A template of 2049 two-byte characters has 2049 characters
  and 4098 bytes, and is refused as too long.
\<close>

theorem SendTelegramNotification_bytes_counterexample:
  "runeCount (chatMessage sampleEnv emptyWorld (concat (replicate 2049 [CHR 0xD0, CHR 0x96])) []) \<le> 4096
   \<and> (\<exists>err. fst (SendTelegramNotification sampleEnv emptyWorld
                    (sampleService\<lparr>TelegramTemplates := [''en'' \<mapsto> concat (replicate 2049 [CHR 0xD0, CHR 0x96])]\<rparr>)
                    ''en'' []) = Some err
             \<and> errorsIs err ErrMessageTooLong)"
proof -
  let ?t = "concat (replicate 2049 [CHR 0xD0, CHR 0x96])"
  let ?svc = "sampleService\<lparr>TelegramTemplates := [''en'' \<mapsto> ?t]\<rparr>"
  have msg: "chatMessage sampleEnv emptyWorld ?t [] = ?t"
    by (simp add: chatMessage_def rangeMap_def List.map_filter_simps escape_cyrillic)
  have conf: "Configured (Telegram ?svc)" by (simp add: Configured_def)
  have "?t \<noteq> []" by (simp add: numeral_eq_Suc)
  then have tmpl: "getLocalizedTemplate emptyWorld ?svc ''en'' = Inr ?t"
    by (simp add: getLocalizedTemplate_def index_def)
  have len: "length ?t = 4098" by (simp add: length_concat sum_list_replicate)
  have runes: "runeCount ?t \<le> 4096" by (simp add: runeCount_cyrillic)
  from SendTelegramNotification_cases [OF conf tmpl, of "[]" sampleEnv "[]"] msg len runes
  show ?thesis by simp
qed

text \<open>
  C6, amended. The text of a chat message is the rendered template after the escaping
  transform, which puts a backslash before every reserved character and nothing else
  ("a.b!c" becomes "a\.b\!c"). SendTelegramNotification fails with the message-too-long
  error exactly when this escaped text is longer than 4096 bytes; then no request goes to
  the bot API (the message is rejected, not truncated), and otherwise the request carries
  the whole escaped text.
\<close>

theorem SendTelegramNotification_length:
  assumes "Configured (Telegram service)"
      and "getLocalizedTemplate w service lang = Inr template"
  shows "EscapeMarkdownV2 s = concat (map escChar s)
       \<and> EscapeMarkdownV2 ''a.b!c'' = [CHR ''a'', backslash, CHR ''.'', CHR ''b'', backslash, CHR ''!'', CHR ''c'']
       \<and> ((\<exists>err. fst (SendTelegramNotification e w service lang data) = Some err
                 \<and> errorsIs err ErrMessageTooLong)
            \<longleftrightarrow> length (chatMessage e w template data) > 4096)
       \<and> (length (chatMessage e w template data) > 4096
            \<longrightarrow> telegramLog (snd (SendTelegramNotification e w service lang data)) = telegramLog w)
       \<and> (length (chatMessage e w template data) \<le> 4096
            \<longrightarrow> telegramLog (snd (SendTelegramNotification e w service lang data))
                = telegramLog w @ [\<lparr>token = BotToken (Telegram service), chat_id = ChatID (Telegram service),
                                    text_field = chatMessage e w template data,
                                    parse_mode = ''MarkdownV2'', disable_web_page_preview = True\<rparr>])"
  using SendTelegramNotification_cases [OF assms] by blast

theorem SendTelegramNotification_length_witness:
  "telegramLog (snd (SendTelegramNotification sampleEnv emptyWorld sampleService ''en''
                       [(''full_name'', VString ''A.B'')]))
     = [\<lparr>token = ''T'', chat_id = ''42'',
         text_field = ''Order from A'' @ [backslash] @ ''.B'' @ [backslash] @ ''!'',
         parse_mode = ''MarkdownV2'', disable_web_page_preview = True\<rparr>]
   \<and> (\<exists>err. fst (SendTelegramNotification sampleEnv emptyWorld
                    (sampleService\<lparr>TelegramTemplates := [''en'' \<mapsto> replicate 5000 (CHR ''x'')]\<rparr>) ''en'' [])
               = Some err \<and> errorsIs err ErrMessageTooLong)
   \<and> telegramLog (snd (SendTelegramNotification sampleEnv emptyWorld
                    (sampleService\<lparr>TelegramTemplates := [''en'' \<mapsto> replicate 5000 (CHR ''x'')]\<rparr>) ''en'' []))
       = []"
proof -
  let ?long = "sampleService\<lparr>TelegramTemplates := [''en'' \<mapsto> replicate 5000 (CHR ''x'')]\<rparr>"
  have conf: "Configured (Telegram sampleService)" "Configured (Telegram ?long)"
    by (simp_all add: Configured_def)
  have t1: "getLocalizedTemplate emptyWorld sampleService ''en'' = Inr ''Order from {full_name}!''"
    by (simp add: getLocalizedTemplate_def index_def)
  have t2: "getLocalizedTemplate emptyWorld ?long ''en'' = Inr (replicate 5000 (CHR ''x''))"
    by (simp add: getLocalizedTemplate_def index_def)
  have m1: "chatMessage sampleEnv emptyWorld ''Order from {full_name}!'' [(''full_name'', VString ''A.B'')]
              = ''Order from A'' @ [backslash] @ ''.B'' @ [backslash] @ ''!''"
    by (simp add: chatMessage_def rangeMap_def List.map_filter_simps EscapeMarkdownV2_def
                  specials_def backslash_def)
  have m2: "length (chatMessage sampleEnv emptyWorld (replicate 5000 (CHR ''x'')) []) = 5000"
    by (simp add: chatMessage_def rangeMap_def List.map_filter_simps length_escape_replicate)
  from SendTelegramNotification_length [OF conf(1) t1, of "[]" sampleEnv "[(''full_name'', VString ''A.B'')]"]
       SendTelegramNotification_length [OF conf(2) t2, of "[]" sampleEnv "[]"]
       m1 m2
  show ?thesis by simp
qed



subsection \<open>The order handler\<close>

lemma rangeMap_frame [simp]:
  "files (snd (rangeMap e w m)) = files w"
  "now (snd (rangeMap e w m)) = now w"
  "orderColumns (snd (rangeMap e w m)) = orderColumns w"
  "calls (snd (rangeMap e w m)) = calls w"
  "project_orders (snd (rangeMap e w m)) = project_orders w"
  "smtpLog (snd (rangeMap e w m)) = smtpLog w"
  by (simp_all add: rangeMap_def)

lemma removeLoop_frame [simp]:
  "now (removeLoop w ps) = now w"
  "orderColumns (removeLoop w ps) = orderColumns w"
  "calls (removeLoop w ps) = calls w"
  "project_orders (removeLoop w ps) = project_orders w"
  by (induction w ps rule: removeLoop.induct) (simp_all add: Remove_def)

lemma cleanupFiles_frame [simp]:
  "now (cleanupFiles e w ps) = now w"
  "orderColumns (cleanupFiles e w ps) = orderColumns w"
  "calls (cleanupFiles e w ps) = calls w"
  "project_orders (cleanupFiles e w ps) = project_orders w"
  by (simp_all add: cleanupFiles_def case_prod_beta)

lemma SaveTempFile_frame [simp]:
  "now (snd (SaveTempFile e w d p)) = now w"
  "orderColumns (snd (SaveTempFile e w d p)) = orderColumns w"
  "calls (snd (SaveTempFile e w d p)) = calls w"
  "project_orders (snd (SaveTempFile e w d p)) = project_orders w"
  by (simp_all add: SaveTempFile_def Let_def Remove_def split: writeResult.splits)

lemma saveLoop_frame':
  "now (snd (saveLoop e w es fps)) = now w
   \<and> orderColumns (snd (saveLoop e w es fps)) = orderColumns w
   \<and> calls (snd (saveLoop e w es fps)) = calls w
   \<and> project_orders (snd (saveLoop e w es fps)) = project_orders w"
proof (induction es arbitrary: w fps)
  case Nil
  then show ?case by simp
next
  case (Cons a es)
  obtain name content where a: "a = (name, content)" by (cases a)
  obtain res w1 where st: "SaveTempFile e w content name = (res, w1)"
    by (cases "SaveTempFile e w content name")
  have fr: "now w1 = now w" "orderColumns w1 = orderColumns w" "calls w1 = calls w"
    "project_orders w1 = project_orders w"
    using SaveTempFile_frame [of e w content name] st by simp_all
  show ?case
  proof (cases res)
    case (Inl err)
    with a st fr show ?thesis by (simp add: case_prod_beta)
  next
    case (Inr info)
    with a st fr Cons.IH [of w1 "assign fps name (Path info)"] show ?thesis by simp
  qed
qed

lemma saveLoop_frame [simp]:
  "now (snd (saveLoop e w es fps)) = now w"
  "orderColumns (snd (saveLoop e w es fps)) = orderColumns w"
  "calls (snd (saveLoop e w es fps)) = calls w"
  "project_orders (snd (saveLoop e w es fps)) = project_orders w"
  using saveLoop_frame' [of e w es fps] by simp_all

lemma saveOrderFiles_frame [simp]:
  "now (snd (saveOrderFiles e w order)) = now w"
  "orderColumns (snd (saveOrderFiles e w order)) = orderColumns w"
  "calls (snd (saveOrderFiles e w order)) = calls w"
  "project_orders (snd (saveOrderFiles e w order)) = project_orders w"
  by (simp_all add: saveOrderFiles_def Let_def case_prod_beta)

lemma renderEmailPart_frame [simp]:
  "files (snd (renderEmailPart e w paths d lang td)) = files w"
  "now (snd (renderEmailPart e w paths d lang td)) = now w"
  "orderColumns (snd (renderEmailPart e w paths d lang td)) = orderColumns w"
  "calls (snd (renderEmailPart e w paths d lang td)) = calls w"
  "project_orders (snd (renderEmailPart e w paths d lang td)) = project_orders w"
  by (simp_all add: renderEmailPart_def Let_def case_prod_beta split: option.splits)

lemma PrepareAttachments_frame [simp]:
  "files (snd (PrepareAttachments e w fps)) = files w"
  "now (snd (PrepareAttachments e w fps)) = now w"
  "orderColumns (snd (PrepareAttachments e w fps)) = orderColumns w"
  "calls (snd (PrepareAttachments e w fps)) = calls w"
  "project_orders (snd (PrepareAttachments e w fps)) = project_orders w"
  by (simp_all add: PrepareAttachments_def Let_def case_prod_beta)

lemma SendOrderEmail_frame [simp]:
  "files (snd (SendOrderEmail e w sv su bo rc at)) = files w"
  "now (snd (SendOrderEmail e w sv su bo rc at)) = now w"
  "orderColumns (snd (SendOrderEmail e w sv su bo rc at)) = orderColumns w"
  "calls (snd (SendOrderEmail e w sv su bo rc at)) = calls w"
  "project_orders (snd (SendOrderEmail e w sv su bo rc at)) = project_orders w"
  by (simp_all add: SendOrderEmail_def Let_def)

lemma sendTelegramRequest_frame [simp]:
  "files (snd (sendTelegramRequest e w tok chat msg)) = files w"
  "now (snd (sendTelegramRequest e w tok chat msg)) = now w"
  "orderColumns (snd (sendTelegramRequest e w tok chat msg)) = orderColumns w"
  "calls (snd (sendTelegramRequest e w tok chat msg)) = calls w"
  "project_orders (snd (sendTelegramRequest e w tok chat msg)) = project_orders w"
  by (simp_all add: sendTelegramRequest_def Let_def split: httpResult.splits option.splits)

lemma SendTelegramNotification_frame [simp]:
  "files (snd (SendTelegramNotification e w sv lang td)) = files w"
  "now (snd (SendTelegramNotification e w sv lang td)) = now w"
  "orderColumns (snd (SendTelegramNotification e w sv lang td)) = orderColumns w"
  "calls (snd (SendTelegramNotification e w sv lang td)) = calls w"
  "project_orders (snd (SendTelegramNotification e w sv lang td)) = project_orders w"
  by (simp_all add: SendTelegramNotification_def Let_def case_prod_beta split: sum.splits)

lemma logOrderToDB_frame [simp]:
  "files (snd (logOrderToDB e w r sn lang order)) = files w"
  "now (snd (logOrderToDB e w r sn lang order)) = now w"
  "orderColumns (snd (logOrderToDB e w r sn lang order)) = orderColumns w"
  "calls (snd (logOrderToDB e w r sn lang order)) = calls w"
  "project_orders (snd (logOrderToDB e w r sn lang order))
     = (if insertFails e (orderColumns w) (orderRowOf e w r sn order) then project_orders w
        else project_orders w @ [orderRowOf e w r sn order])"
  by (simp_all add: logOrderToDB_def Let_def)

lemma orderRowOf_cong:
  "now w' = now w \<Longrightarrow> orderRowOf e w' r sn order = orderRowOf e w r sn order"
  by (simp add: orderRowOf_def)



lemma dispatchOrder_steps:
  assumes s1: "renderEmailPart e w (EmailTemplateSubjectPaths service) defaultSubject lang
                 (templateDataOf order lang service) = (subject, w1)"
      and s2: "renderEmailPart e w1 (EmailTemplateBodyPaths service) defaultBody lang
                 (templateDataOf order lang service) = (body, w2)"
      and s3: "PrepareAttachments e w2 fps = (prepared, w3)"
      and s4: "w4 = (case prepared of
                 Inr attachments \<Rightarrow>
                   snd (SendOrderEmail e
                          (w3\<lparr>calls := calls w3 @ [SendOrderEmailCall service subject body
                                                   (ContactInfo order) attachments]\<rparr>)
                          service subject body (ContactInfo order) attachments)
               | Inl err \<Rightarrow> w3)"
      and s5: "w5 = snd (SendTelegramNotification e
                     (w4\<lparr>calls := calls w4 @ [SendTelegramNotificationCall service lang
                                               (templateDataOf order lang service)]\<rparr>)
                     service lang (templateDataOf order lang service))"
      and s6: "w6 = snd (logOrderToDB e
                     (w5\<lparr>calls := calls w5 @ [logOrderToDBCall (orderRowOf e w5 r sn order)]\<rparr>)
                     r sn lang order)"
  shows "dispatchOrder e w r order sn service lang fps
           = (respondWithJSON 200 [(''status'', ''success''), (''service'', sn), (''lang'', lang)],
              cleanupFiles e w6 fps)"
  unfolding dispatchOrder_def Let_def s1 s2 s3 prod.case
  unfolding s4 s5 s6 ..

lemma withChannels_simps [simp]:
  "IsMIME (withChannels e pa sm hp um) = IsMIME e"
  "DetectContentType (withChannels e pa sm hp um) = DetectContentType e"
  "Sum256 (withChannels e pa sm hp um) = Sum256 e"
  "uuidNew (withChannels e pa sm hp um) = uuidNew e"
  "filepathJoin (withChannels e pa sm hp um) = filepathJoin e"
  "filepathBase (withChannels e pa sm hp um) = filepathBase e"
  "ToLower (withChannels e pa sm hp um) = ToLower e"
  "TrimSpace (withChannels e pa sm hp um) = TrimSpace e"
  "SplitHostPort (withChannels e pa sm hp um) = SplitHostPort e"
  "rangeOrder (withChannels e pa sm hp um) = rangeOrder e"
  "MkdirAllFails (withChannels e pa sm hp um) = MkdirAllFails e"
  "WriteFile (withChannels e pa sm hp um) = WriteFile e"
  "ExecFails (withChannels e pa sm hp um) = ExecFails e"
  by (simp_all add: withChannels_def)

lemma rangeMap_withChannels [simp]:
  "rangeMap (withChannels e pa sm hp um) w m = rangeMap e w m"
  by (simp add: rangeMap_def)

lemma SaveTempFile_withChannels [simp]:
  "SaveTempFile (withChannels e pa sm hp um) w d p = SaveTempFile e w d p"
  by (simp add: SaveTempFile_def Let_def split: writeResult.splits)

lemma saveLoop_withChannels [simp]:
  "saveLoop (withChannels e pa sm hp um) w es fps = saveLoop e w es fps"
  by (induction es arbitrary: w fps) (auto split: prod.splits sum.splits)

lemma saveOrderFiles_withChannels [simp]:
  "saveOrderFiles (withChannels e pa sm hp um) w order = saveOrderFiles e w order"
  by (simp add: saveOrderFiles_def Let_def)

lemma prepareLoop_withChannels [simp]:
  "prepareLoop (withChannels e pa sm hp um) w es acc = prepareLoop e w es acc"
  by (induction es arbitrary: acc) (auto split: option.splits)

lemma PrepareAttachments_withChannels [simp]:
  "PrepareAttachments (withChannels e pa sm hp um) w fps = PrepareAttachments e w fps"
  by (simp add: PrepareAttachments_def Let_def)

lemma renderEmailPart_withChannels [simp]:
  "renderEmailPart (withChannels e pa sm hp um) w paths d lang td = renderEmailPart e w paths d lang td"
  by (simp add: renderEmailPart_def Let_def cong: option.case_cong)

lemma orderRowOf_withChannels [simp]:
  "orderRowOf (withChannels e pa sm hp um) w r sn order = orderRowOf e w r sn order"
  by (simp add: orderRowOf_def GetRealIP_def)

lemma ValidatePDF_withChannels [simp]:
  "ValidatePDF (withChannels e pa sm hp um) d = ValidatePDF e d"
  by (simp add: ValidatePDF_def)

lemma GetService_withChannels [simp]:
  "GetService (withChannels e pa sm hp um) services n = GetService e services n"
  by (simp add: GetService_def)


lemma SaveTempFile_files:
  "SaveTempFile e w d p = (Inr info, w1) \<Longrightarrow> files w1 = (files w)(Path info \<mapsto> d)"
  by (auto simp: SaveTempFile_def Let_def split: if_splits writeResult.splits)

lemma set_assign: "set (assign m k v) \<subseteq> insert (k, v) (set m)"
  by (induction m k v rule: assign.induct) auto

lemma assign_not_Nil [simp]: "assign m k v \<noteq> []"
  by (induction m k v rule: assign.induct) auto

lemma saveLoop_stored:
  assumes "saveLoop e w es fps = (Inr fps', w')"
      and "\<forall>(n, p) \<in> set fps. files w p \<noteq> None"
  shows "(\<forall>(n, p) \<in> set fps'. files w' p \<noteq> None) \<and> (es \<noteq> [] \<or> fps \<noteq> [] \<longrightarrow> fps' \<noteq> [])"
  using assms
proof (induction es arbitrary: w fps)
  case Nil
  then show ?case by auto
next
  case (Cons a es)
  obtain name content where a: "a = (name, content)" by (cases a)
  obtain res w1 where st: "SaveTempFile e w content name = (res, w1)"
    by (cases "SaveTempFile e w content name")
  show ?case
  proof (cases res)
    case (Inl err)
    with Cons.prems(1) a st show ?thesis by (simp add: case_prod_beta)
  next
    case (Inr info)
    with Cons.prems(1) a st
    have rec: "saveLoop e w1 es (assign fps name (Path info)) = (Inr fps', w')" by simp
    have f1: "files w1 = (files w)(Path info \<mapsto> content)"
      using SaveTempFile_files st Inr by simp
    have "\<forall>(n, p) \<in> set (assign fps name (Path info)). files w1 p \<noteq> None"
      using Cons.prems(2) set_assign [of fps name "Path info"] f1 by auto
    from Cons.IH [OF rec this] show ?thesis by simp
  qed
qed

lemma map_filter_Nil_iff:
  "List.map_filter f xs = [] \<longleftrightarrow> (\<forall>x \<in> set xs. f x = None)"
  by (induction xs) (auto simp: List.map_filter_simps split: option.splits)

lemma set_map_filter:
  "set (List.map_filter f xs) = {y. \<exists>x \<in> set xs. f x = Some y}"
  by (induction xs) (auto simp: List.map_filter_simps split: option.splits)

lemma rangeMap_entries:
  assumes "set (rangeOrder e (rangeCount w) (map fst m)) = set (map fst m)"
  shows "set (fst (rangeMap e w m)) \<subseteq> set m" "m \<noteq> [] \<Longrightarrow> fst (rangeMap e w m) \<noteq> []"
proof -
  show "set (fst (rangeMap e w m)) \<subseteq> set m"
    by (auto simp: rangeMap_def set_map_filter dest: map_of_SomeD)
  assume "m \<noteq> []"
  then obtain k v where kv: "(k, v) \<in> set m" by (cases m) auto
  then have "k \<in> set (rangeOrder e (rangeCount w) (map fst m))"
    using assms by force
  moreover have "map_of m k \<noteq> None" using kv by (simp add: map_of_eq_None_iff) force
  ultimately show "fst (rangeMap e w m) \<noteq> []"
    by (auto simp: rangeMap_def map_filter_Nil_iff)
qed

lemma prepareLoop_grows: "length acc \<le> length (prepareLoop e w es acc)"
proof (induction es arbitrary: acc)
  case Nil
  then show ?case by simp
next
  case (Cons a es)
  obtain n p where a: "a = (n, p)" by (cases a)
  show ?case
  proof (cases "files w p")
    case None
    with a Cons.IH [of acc] show ?thesis by simp
  next
    case (Some c)
    with a Cons.IH [of "acc @ [\<lparr>AttachmentName = filepathBase e p, Content = c\<rparr>]"]
    show ?thesis by simp
  qed
qed

lemma prepareLoop_readable:
  assumes "es \<noteq> []" "\<forall>(n, p) \<in> set es. files w p \<noteq> None"
  shows "prepareLoop e w es acc \<noteq> []"
proof -
  obtain n p rest where es: "es = (n, p) # rest" using assms(1) by (cases es) auto
  with assms(2) obtain c where c: "files w p = Some c" by auto
  let ?acc = "acc @ [\<lparr>AttachmentName = filepathBase e p, Content = c\<rparr>]"
  have eq: "prepareLoop e w es acc = prepareLoop e w rest ?acc" using es c by simp
  have le: "length ?acc \<le> length (prepareLoop e w rest ?acc)" by (rule prepareLoop_grows)
  have "prepareLoop e w rest ?acc \<noteq> []"
  proof
    assume "prepareLoop e w rest ?acc = []"
    with le have "length ?acc \<le> 0" by simp
    then show False by simp
  qed
  with eq show ?thesis by simp
qed

lemma PrepareAttachments_readable:
  assumes "fps \<noteq> []" "\<forall>(n, p) \<in> set fps. files w p \<noteq> None"
      and "set (rangeOrder e (rangeCount w) (map fst fps)) = set (map fst fps)"
  shows "\<exists>attachments. fst (PrepareAttachments e w fps) = Inr attachments"
proof -
  let ?es = "fst (rangeMap e w fps)"
  have 1: "?es \<noteq> []" using rangeMap_entries(2) [OF assms(3)] assms(1) by simp
  have 2: "\<forall>(n, p) \<in> set ?es. files (snd (rangeMap e w fps)) p \<noteq> None"
    using rangeMap_entries(1) [OF assms(3)] assms(2) by auto
  from prepareLoop_readable [OF 1 2, of e "[]"]
  show ?thesis by (simp add: PrepareAttachments_def Let_def case_prod_beta)
qed

lemma saveOrderFiles_stored:
  assumes "saveOrderFiles e w order = (Inr fps, w1)"
      and "\<forall>n ks. set (rangeOrder e n ks) = set ks"
  shows "fps \<noteq> [] \<and> (\<forall>(n, p) \<in> set fps. files w1 p \<noteq> None)"
proof -
  let ?m0 = "[(''specification'', SpecificationPdf order), (''invoice'', InvoicePdf order),
              (''contract'', ContractPdf order)]"
  let ?m = "if length (BriefFile order) > 0 then assign ?m0 ''brief'' (BriefFile order) else ?m0"
  let ?es = "fst (rangeMap e w ?m)"
  have m: "?m \<noteq> []" by simp
  have es: "?es \<noteq> []" using rangeMap_entries(2) [of e w ?m] assms(2) m by blast
  have "saveLoop e (snd (rangeMap e w ?m)) ?es [] = (Inr fps, w1)"
    using assms(1) by (simp add: saveOrderFiles_def Let_def case_prod_beta)
  from saveLoop_stored [OF this] es show ?thesis by simp
qed

lemma dispatchOrder_effects:
  fixes e w r order sn service lang fps
  defines "td \<equiv> templateDataOf order lang service"
  defines "r1 \<equiv> renderEmailPart e w (EmailTemplateSubjectPaths service) defaultSubject lang td"
  defines "r2 \<equiv> renderEmailPart e (snd r1) (EmailTemplateBodyPaths service) defaultBody lang td"
  defines "r3 \<equiv> PrepareAttachments e (snd r2) fps"
  defines "out \<equiv> dispatchOrder e w r order sn service lang fps"
  shows "fst out = respondWithJSON 200 [(''status'', ''success''), (''service'', sn), (''lang'', lang)]"
    and "calls (snd out)
           = calls w
             @ (case fst r3 of
                  Inr a \<Rightarrow> [SendOrderEmailCall service (fst r1) (fst r2) (ContactInfo order) a]
                | Inl err \<Rightarrow> [])
             @ [SendTelegramNotificationCall service lang td,
                logOrderToDBCall (orderRowOf e w r sn order)]"
    and "project_orders (snd out)
           = (if insertFails e (orderColumns w) (orderRowOf e w r sn order) then project_orders w
              else project_orders w @ [orderRowOf e w r sn order])"
proof -
  define w4 where "w4 = (case fst r3 of
                 Inr attachments \<Rightarrow>
                   snd (SendOrderEmail e
                          ((snd r3)\<lparr>calls := calls (snd r3) @ [SendOrderEmailCall service (fst r1) (fst r2)
                                                   (ContactInfo order) attachments]\<rparr>)
                          service (fst r1) (fst r2) (ContactInfo order) attachments)
               | Inl err \<Rightarrow> snd r3)"
  define w5 where "w5 = snd (SendTelegramNotification e
                     (w4\<lparr>calls := calls w4 @ [SendTelegramNotificationCall service lang
                                               (templateDataOf order lang service)]\<rparr>)
                     service lang (templateDataOf order lang service))"
  define w6 where "w6 = snd (logOrderToDB e
                     (w5\<lparr>calls := calls w5 @ [logOrderToDBCall (orderRowOf e w5 r sn order)]\<rparr>)
                     r sn lang order)"
  have s1: "renderEmailPart e w (EmailTemplateSubjectPaths service) defaultSubject lang
                 (templateDataOf order lang service) = (fst r1, snd r1)"
    by (simp add: r1_def td_def)
  have s2: "renderEmailPart e (snd r1) (EmailTemplateBodyPaths service) defaultBody lang
                 (templateDataOf order lang service) = (fst r2, snd r2)"
    by (simp add: r2_def td_def)
  have s3: "PrepareAttachments e (snd r2) fps = (fst r3, snd r3)"
    by (simp add: r3_def)
  have out: "out = (respondWithJSON 200 [(''status'', ''success''), (''service'', sn), (''lang'', lang)],
                    cleanupFiles e w6 fps)"
    unfolding out_def by (rule dispatchOrder_steps [OF s1 s2 s3 w4_def w5_def w6_def])
  have f3: "now (snd r3) = now w" "calls (snd r3) = calls w" "project_orders (snd r3) = project_orders w"
    "orderColumns (snd r3) = orderColumns w"
    by (simp_all add: r3_def r2_def r1_def)
  have f4: "now w4 = now w" "project_orders w4 = project_orders w" "orderColumns w4 = orderColumns w"
    "calls w4 = calls w @ (case fst r3 of
                  Inr a \<Rightarrow> [SendOrderEmailCall service (fst r1) (fst r2) (ContactInfo order) a]
                | Inl err \<Rightarrow> [])"
    by (simp_all add: w4_def f3 split: sum.splits)
  have f5: "now w5 = now w" "project_orders w5 = project_orders w" "orderColumns w5 = orderColumns w"
    "calls w5 = calls w4 @ [SendTelegramNotificationCall service lang td]"
    by (simp_all add: w5_def f4 td_def)
  have row: "orderRowOf e w5 r sn order = orderRowOf e w r sn order"
    by (rule orderRowOf_cong) (rule f5(1))
  have row': "orderRowOf e (w5\<lparr>calls := c\<rparr>) r sn order = orderRowOf e w r sn order" for c
    by (rule orderRowOf_cong) (simp add: f5)
  have f6: "calls w6 = calls w5 @ [logOrderToDBCall (orderRowOf e w r sn order)]"
    "project_orders w6 = (if insertFails e (orderColumns w) (orderRowOf e w r sn order) then project_orders w
              else project_orders w @ [orderRowOf e w r sn order])"
    by (simp_all add: w6_def row row' f5)
  show "fst out = respondWithJSON 200 [(''status'', ''success''), (''service'', sn), (''lang'', lang)]"
    by (simp add: out)
  show "calls (snd out)
           = calls w
             @ (case fst r3 of
                  Inr a \<Rightarrow> [SendOrderEmailCall service (fst r1) (fst r2) (ContactInfo order) a]
                | Inl err \<Rightarrow> [])
             @ [SendTelegramNotificationCall service lang td,
                logOrderToDBCall (orderRowOf e w r sn order)]"
    by (simp add: out f6 f5 f4)
  show "project_orders (snd out)
           = (if insertFails e (orderColumns w) (orderRowOf e w r sn order) then project_orders w
              else project_orders w @ [orderRowOf e w r sn order])"
    by (simp add: out f6)
qed

lemma HandleProjectOrder_accepted:
  assumes "Decoded r = Some order"
      and "FullName order \<noteq> []" "ContactInfo order \<noteq> []" "PaymentMethod order \<noteq> []"
      and "ValidatePDF e (SpecificationPdf order)" "ValidatePDF e (InvoicePdf order)"
          "ValidatePDF e (ContractPdf order)"
      and "X_Service_Name r \<noteq> []"
      and "GetService e services (X_Service_Name r) = Some service"
      and "saveOrderFiles e w order = (Inr fps, w1)"
  shows "HandleProjectOrder e services w r
           = dispatchOrder e w1 r order (X_Service_Name r) service
               (negotiateLanguage (SupportedLangs service) (Language order) (Accept_Language r)) fps"
  using assms by (simp add: HandleProjectOrder_def Let_def negotiateLanguage_def)

lemma HandleProjectOrder_200:
  assumes "statusCode (fst (HandleProjectOrder e services w r)) = 200"
  shows "\<exists>order service fps w1.
           Decoded r = Some order
         \<and> GetService e services (X_Service_Name r) = Some service
         \<and> saveOrderFiles e w order = (Inr fps, w1)
         \<and> HandleProjectOrder e services w r
             = dispatchOrder e w1 r order (X_Service_Name r) service
                 (negotiateLanguage (SupportedLangs service) (Language order) (Accept_Language r)) fps"
  using assms
  by (auto simp: HandleProjectOrder_def Let_def negotiateLanguage_def respondWithError_def
                 respondWithJSON_def
           split: option.splits if_splits prod.splits sum.splits)

lemma sampleOrder_simps [simp]:
  "FullName sampleOrder = ''Ann Lee''" "CompanyName sampleOrder = ''ACME''"
  "ContactInfo sampleOrder = ''ann@acme.test''" "ProjectLink sampleOrder = []"
  "PaymentMethod sampleOrder = ''card''" "StartDate sampleOrder = ''2025-07-04''"
  "Language sampleOrder = ''fr''" "BriefFile sampleOrder = []"
  "SpecificationPdf sampleOrder = ''%PDF-1.4 spec''" "InvoicePdf sampleOrder = ''%PDF-1.4 inv''"
  "ContractPdf sampleOrder = ''%PDF-1.4 con''"
  by (simp_all add: sampleOrder_def)

lemma sampleRequest_simps [simp]:
  "Decoded sampleRequest = Some sampleOrder" "X_Service_Name sampleRequest = ''codcl''"
  "Accept_Language sampleRequest = []" "X_Forwarded_For sampleRequest = []"
  "X_Real_IP sampleRequest = ''10.0.0.7''" "RemoteAddr sampleRequest = ''10.0.0.1:5050''"
  "UserAgent sampleRequest = ''curl''"
  by (simp_all add: sampleRequest_def)

lemma sample_saveOrderFiles:
  "\<exists>fps w1. saveOrderFiles sampleEnv emptyWorld sampleOrder = (Inr fps, w1)"
  by (simp add: saveOrderFiles_def rangeMap_def List.map_filter_simps SaveTempFile_def Let_def
                MaxFileSize_def)

lemma sample_accepted:
  "statusCode (fst (HandleProjectOrder sampleEnv sampleServices emptyWorld sampleRequest)) = 200"
proof -
  obtain fps w1 where sv: "saveOrderFiles sampleEnv emptyWorld sampleOrder = (Inr fps, w1)"
    using sample_saveOrderFiles by blast
  have "HandleProjectOrder sampleEnv sampleServices emptyWorld sampleRequest
           = dispatchOrder sampleEnv w1 sampleRequest sampleOrder (X_Service_Name sampleRequest) sampleService
               (negotiateLanguage (SupportedLangs sampleService) (Language sampleOrder)
                  (Accept_Language sampleRequest)) fps"
    by (rule HandleProjectOrder_accepted [OF _ _ _ _ _ _ _ _ _ sv])
       (simp_all add: ValidatePDF_def PDFMagicNumber_def GetService_def sampleServices_def)
  then show ?thesis by (simp add: dispatchOrder_effects(1) respondWithJSON_def)
qed

lemma insertFails_init: "insertFails e init_project_orders row"
  by (simp add: insertFails_def insertable_def insertColumns_def init_project_orders_def)

lemma HandleProjectOrder_audit:
  assumes "statusCode (fst (HandleProjectOrder e services w r)) = 200"
  shows "\<exists>order service.
           Decoded r = Some order
         \<and> GetService e services (X_Service_Name r) = Some service
         \<and> project_orders (snd (HandleProjectOrder e services w r))
             = (if insertFails e (orderColumns w) (orderRowOf e w r (X_Service_Name r) order)
                then project_orders w
                else project_orders w @ [orderRowOf e w r (X_Service_Name r) order])
         \<and> last (calls (snd (HandleProjectOrder e services w r)))
             = logOrderToDBCall (orderRowOf e w r (X_Service_Name r) order)
         \<and> payload (fst (HandleProjectOrder e services w r))
             = [(''status'', ''success''), (''service'', X_Service_Name r),
                (''lang'', negotiateLanguage (SupportedLangs service) (Language order) (Accept_Language r))]"
proof -
  from HandleProjectOrder_200 [OF assms] obtain order service fps w1 where
    d: "Decoded r = Some order" and g: "GetService e services (X_Service_Name r) = Some service"
    and sv: "saveOrderFiles e w order = (Inr fps, w1)"
    and h: "HandleProjectOrder e services w r
             = dispatchOrder e w1 r order (X_Service_Name r) service
                 (negotiateLanguage (SupportedLangs service) (Language order) (Accept_Language r)) fps"
    by blast
  have fr: "now w1 = now w" "project_orders w1 = project_orders w" "orderColumns w1 = orderColumns w"
    using saveOrderFiles_frame [of e w order] sv by simp_all
  have row: "orderRowOf e w1 r (X_Service_Name r) order = orderRowOf e w r (X_Service_Name r) order"
    by (rule orderRowOf_cong) (rule fr(1))
  from d g show ?thesis
    by (simp add: h dispatchOrder_effects row fr respondWithJSON_def)
qed

lemma HandleProjectOrder_channels:
  assumes dec: "Decoded r = Some order"
      and req: "FullName order \<noteq> []" "ContactInfo order \<noteq> []" "PaymentMethod order \<noteq> []"
      and pdf: "ValidatePDF e (SpecificationPdf order)" "ValidatePDF e (InvoicePdf order)"
               "ValidatePDF e (ContractPdf order)"
      and name: "X_Service_Name r \<noteq> []"
      and svc: "GetService e services (X_Service_Name r) = Some service"
      and sav: "saveOrderFiles e w order = (Inr fps, w1)"
      and perm: "\<forall>n ks. set (rangeOrder e n ks) = set ks"
      and lang: "lang = negotiateLanguage (SupportedLangs service) (Language order) (Accept_Language r)"
      and row: "row = orderRowOf e w r (X_Service_Name r) order"
  shows "fst (HandleProjectOrder e services w r)
           = respondWithJSON 200 [(''status'', ''success''), (''service'', X_Service_Name r), (''lang'', lang)]
       \<and> (\<exists>attachments.
             calls (snd (HandleProjectOrder e services w r))
               = calls w @ [SendOrderEmailCall service
                              (fst (renderEmailPart e w1 (EmailTemplateSubjectPaths service) defaultSubject
                                      lang (templateDataOf order lang service)))
                              (fst (renderEmailPart e
                                      (snd (renderEmailPart e w1 (EmailTemplateSubjectPaths service)
                                              defaultSubject lang (templateDataOf order lang service)))
                                      (EmailTemplateBodyPaths service) defaultBody
                                      lang (templateDataOf order lang service)))
                              (ContactInfo order) attachments,
                            SendTelegramNotificationCall service lang (templateDataOf order lang service),
                            logOrderToDBCall row])
       \<and> project_orders (snd (HandleProjectOrder e services w r))
           = (if insertFails e (orderColumns w) row then project_orders w else project_orders w @ [row])
       \<and> (\<forall>pa sm hp um.
             fst (HandleProjectOrder (withChannels e pa sm hp um) services w r)
               = fst (HandleProjectOrder e services w r)
           \<and> calls (snd (HandleProjectOrder (withChannels e pa sm hp um) services w r))
               = calls (snd (HandleProjectOrder e services w r))
           \<and> project_orders (snd (HandleProjectOrder (withChannels e pa sm hp um) services w r))
               = project_orders (snd (HandleProjectOrder e services w r)))"
proof -
  let ?sn = "X_Service_Name r"
  let ?td = "templateDataOf order lang service"
  have h: "HandleProjectOrder e services w r = dispatchOrder e w1 r order ?sn service lang fps"
    unfolding lang by (rule HandleProjectOrder_accepted [OF dec req pdf name svc sav])
  have h': "HandleProjectOrder (withChannels e pa sm hp um) services w r
              = dispatchOrder (withChannels e pa sm hp um) w1 r order ?sn service lang fps"
    for pa sm hp um
    unfolding lang
    by (rule HandleProjectOrder_accepted [OF dec req]) (simp_all add: pdf name svc sav)
  have fr: "now w1 = now w" "calls w1 = calls w" "project_orders w1 = project_orders w"
    "orderColumns w1 = orderColumns w"
    using saveOrderFiles_frame [of e w order] sav by simp_all
  have row1: "orderRowOf e w1 r ?sn order = row"
    unfolding row by (rule orderRowOf_cong) (rule fr(1))
  have ins: "insertFails (withChannels e pa sm hp um) t x = insertFails e t x" for pa sm hp um t x
    by (simp add: insertFails_def)
  let ?r1 = "renderEmailPart e w1 (EmailTemplateSubjectPaths service) defaultSubject lang ?td"
  let ?r2 = "renderEmailPart e (snd ?r1) (EmailTemplateBodyPaths service) defaultBody lang ?td"
  let ?r3 = "PrepareAttachments e (snd ?r2) fps"
  from saveOrderFiles_stored [OF sav perm]
  have st: "fps \<noteq> []" "\<forall>(n, p) \<in> set fps. files w1 p \<noteq> None" by simp_all
  have "\<forall>(n, p) \<in> set fps. files (snd ?r2) p \<noteq> None" using st(2) by simp
  from PrepareAttachments_readable [OF st(1) this] perm
  obtain attachments where att: "fst ?r3 = Inr attachments" by blast
  have c: "calls (snd (HandleProjectOrder e services w r))
             = calls w @ [SendOrderEmailCall service (fst ?r1) (fst ?r2) (ContactInfo order) attachments,
                          SendTelegramNotificationCall service lang ?td, logOrderToDBCall row]"
    by (simp add: h dispatchOrder_effects(2) att row1 fr)
  have c': "calls (snd (HandleProjectOrder (withChannels e pa sm hp um) services w r))
             = calls w @ [SendOrderEmailCall service (fst ?r1) (fst ?r2) (ContactInfo order) attachments,
                          SendTelegramNotificationCall service lang ?td, logOrderToDBCall row]"
    for pa sm hp um
    by (simp add: h' dispatchOrder_effects(2) att row1 fr)
  have p: "project_orders (snd (HandleProjectOrder e services w r))
             = (if insertFails e (orderColumns w) row then project_orders w else project_orders w @ [row])"
    by (simp add: h dispatchOrder_effects(3) row1 fr)
  have p': "project_orders (snd (HandleProjectOrder (withChannels e pa sm hp um) services w r))
             = (if insertFails e (orderColumns w) row then project_orders w else project_orders w @ [row])"
    for pa sm hp um
    by (simp add: h' dispatchOrder_effects(3) row1 fr ins)
  have f: "fst (HandleProjectOrder e services w r)
           = respondWithJSON 200 [(''status'', ''success''), (''service'', ?sn), (''lang'', lang)]"
    by (simp add: h dispatchOrder_effects(1))
  have f': "fst (HandleProjectOrder (withChannels e pa sm hp um) services w r)
           = respondWithJSON 200 [(''status'', ''success''), (''service'', ?sn), (''lang'', lang)]"
    for pa sm hp um
    by (simp add: h' dispatchOrder_effects(1))
  from c c' p p' f f' show ?thesis by simp
qed

lemma sample_handler_facts:
  "ValidatePDF sampleEnv (SpecificationPdf sampleOrder)"
  "ValidatePDF sampleEnv (InvoicePdf sampleOrder)"
  "ValidatePDF sampleEnv (ContractPdf sampleOrder)"
  "GetService sampleEnv sampleServices (X_Service_Name sampleRequest) = Some sampleService"
  "\<forall>n ks. set (rangeOrder sampleEnv n ks) = set ks"
  by (simp_all add: ValidatePDF_def PDFMagicNumber_def GetService_def sampleServices_def)

text \<open>
  C1 does not hold of the code in its last part. For a well-formed order of a resolved
  service whose files are stored, the handler does call SendOrderEmail and then
  SendTelegramNotification, whatever either of them returns, and responds 200 with status
  "success"; but the audit row is not written. logOrderToDB inserts into a column
  \<open>language\<close>, the table of the migration has the column \<open>languages\<close> (NOT NULL) and no
  column \<open>language\<close>, the INSERT is refused, and the handler discards the error.
\<close>

theorem audit_row_not_written:
  assumes "Decoded r = Some order"
      and "FullName order \<noteq> []" "ContactInfo order \<noteq> []" "PaymentMethod order \<noteq> []"
      and "ValidatePDF e (SpecificationPdf order)" "ValidatePDF e (InvoicePdf order)"
          "ValidatePDF e (ContractPdf order)"
      and "X_Service_Name r \<noteq> []"
      and "GetService e services (X_Service_Name r) = Some service"
      and "saveOrderFiles e w order = (Inr fps, w1)"
      and "\<forall>n ks. set (rangeOrder e n ks) = set ks"
      and "orderColumns w = init_project_orders"
  shows "statusCode (fst (HandleProjectOrder e services w r)) = 200
       \<and> (\<exists>subject body attachments lang data row.
             calls (snd (HandleProjectOrder e services w r))
               = calls w @ [SendOrderEmailCall service subject body (ContactInfo order) attachments,
                            SendTelegramNotificationCall service lang data,
                            logOrderToDBCall row])
       \<and> project_orders (snd (HandleProjectOrder e services w r)) = project_orders w"
  using HandleProjectOrder_channels [OF assms(1-11) refl refl] assms(12)
  by (auto simp: insertFails_init respondWithJSON_def)

theorem audit_row_not_written_witness:
  "statusCode (fst (HandleProjectOrder sampleEnv sampleServices emptyWorld sampleRequest)) = 200
   \<and> length (calls (snd (HandleProjectOrder sampleEnv sampleServices emptyWorld sampleRequest))) = 3
   \<and> project_orders (snd (HandleProjectOrder sampleEnv sampleServices emptyWorld sampleRequest)) = []"
proof -
  obtain fps w1 where sv: "saveOrderFiles sampleEnv emptyWorld sampleOrder = (Inr fps, w1)"
    using sample_saveOrderFiles by blast
  from audit_row_not_written [OF _ _ _ _ sample_handler_facts(1-3) _ sample_handler_facts(4) sv
         sample_handler_facts(5)]
  show ?thesis by auto
qed

text \<open>
  C10 does not hold of the code. For an accepted order the statement logOrderToDB
  prepares does bind the Language field of the request body, as submitted, to the column
  \<open>language\<close>, while the response carries the negotiated code; but on the table of the
  migration, which has no column \<open>language\<close>, the INSERT is refused and no audit row is
  persisted at all.
\<close>

theorem audit_language_not_persisted:
  assumes "statusCode (fst (HandleProjectOrder e services w r)) = 200"
      and "orderColumns w = init_project_orders"
  shows "\<exists>order service.
           Decoded r = Some order
         \<and> GetService e services (X_Service_Name r) = Some service
         \<and> last (calls (snd (HandleProjectOrder e services w r)))
             = logOrderToDBCall (orderRowOf e w r (X_Service_Name r) order)
         \<and> language (orderRowOf e w r (X_Service_Name r) order) = Language order
         \<and> payload (fst (HandleProjectOrder e services w r))
             = [(''status'', ''success''), (''service'', X_Service_Name r),
                (''lang'', negotiateLanguage (SupportedLangs service) (Language order) (Accept_Language r))]
         \<and> project_orders (snd (HandleProjectOrder e services w r)) = project_orders w"
proof -
  have "language (orderRowOf e w r (X_Service_Name r) order) = Language order" for order
    by (simp add: orderRowOf_def)
  with HandleProjectOrder_audit [OF assms(1)] assms(2) show ?thesis
    by (auto simp: insertFails_init)
qed

theorem audit_language_not_persisted_witness:
  "(\<exists>row. last (calls (snd (HandleProjectOrder sampleEnv sampleServices emptyWorld sampleRequest)))
            = logOrderToDBCall row \<and> language row = ''fr'')
   \<and> payload (fst (HandleProjectOrder sampleEnv sampleServices emptyWorld sampleRequest))
       = [(''status'', ''success''), (''service'', ''codcl''), (''lang'', ''en'')]
   \<and> project_orders (snd (HandleProjectOrder sampleEnv sampleServices emptyWorld sampleRequest)) = []"
  using audit_language_not_persisted [OF sample_accepted]
  by (auto simp: GetService_def sampleServices_def negotiateLanguage_def supportedOrFirst_def
                 requestedLang_def)

subsection \<open>Where templates come from\<close>









subsection \<open>Rate limiting\<close>

lemma GetRealIP_requestFrom [simp]: "ip \<noteq> [] \<Longrightarrow> GetRealIP e (requestFrom ip) = ip"
  by (simp add: GetRealIP_def requestFrom_def)

lemma limiters_shared:
  assumes "\<forall>ip a. limiters st ip = Some a \<longrightarrow> a = limiter st"
  shows "\<forall>ip a. limiters (snd (serveRateLimited e st r)) ip = Some a
                \<longrightarrow> a = limiter (snd (serveRateLimited e st r))"
  using assms
  by (auto simp: serveRateLimited_def Let_def case_prod_beta split: option.splits if_splits)

lemma replicate_ten: "replicate 10 x = [x, x, x, x, x, x, x, x, x, x]"
  by (simp add: numeral_eq_Suc)

text \<open>
  C5 does not hold of the code. The middleware creates one limiter when it is built and
  stores a pointer to that same limiter under every client IP, so all clients draw from
  one bucket: after ten requests from 1.1.1.1 have taken the ten tokens, the first
  request from 2.2.2.2 is suspended for a refill interval (6000 ms), although a request
  from 2.2.2.2 to a fresh middleware passes at once; and the map sends both addresses to
  the same pointer.
\<close>

theorem RateLimit_shared_bucket:
  "fst (serveAll sampleEnv RateLimitMiddleware (replicate 10 (requestFrom ''1.1.1.1'')))
     = replicate 10 0
   \<and> fst (serveRateLimited sampleEnv
            (snd (serveAll sampleEnv RateLimitMiddleware (replicate 10 (requestFrom ''1.1.1.1''))))
            (requestFrom ''2.2.2.2'')) = 6000
   \<and> fst (serveRateLimited sampleEnv RateLimitMiddleware (requestFrom ''2.2.2.2'')) = 0
   \<and> limiters (snd (serveAll sampleEnv RateLimitMiddleware
                      [requestFrom ''1.1.1.1'', requestFrom ''2.2.2.2''])) ''1.1.1.1''
       = limiters (snd (serveAll sampleEnv RateLimitMiddleware
                      [requestFrom ''1.1.1.1'', requestFrom ''2.2.2.2''])) ''2.2.2.2''"
  by (simp add: replicate_ten RateLimitMiddleware_def serveRateLimited_def NewLimiter_def
                Wait_def Let_def)

end
